theory Spec2Isabelle
  imports Complex_Main "HOL-Library.Word" "HOL-Library.Multiset"
begin

section \<open>JavaScript values used by the block view\<close>

text \<open>
  Exceptions are values. \<open>TypeError\<close> is what the engine raises for a call of something
  that is not a function, and what \<open>Buffer.alloc\<close> raises for a size that is not a number;
  \<open>RangeError\<close> is a Buffer read past the end of the buffer; \<open>ChoiceError t\<close> is the
  binary parser's error for a \<open>choice\<close> whose tag \<open>t\<close> has no entry and no default;
  \<open>DidNotComplete\<close> is \<open>new Error('did not complete')\<close>; \<open>IoError\<close> is a rejected
  read of the backing file and \<open>InflateError\<close> a failed \<open>zlib.inflateSync\<close>.
\<close>

datatype js_error = TypeError | RangeError | ChoiceError nat | DidNotComplete | IoError | InflateError

text \<open>A Node Buffer is a sequence of bytes.\<close>

type_synonym buffer = "8 word list"

text \<open>
  A JavaScript number as the decoders produce it: a finite double, an infinity or NaN.
  The two zeros are one value.
\<close>

datatype jsnum = Num real | PosInf | NegInf | NaN

subsection \<open>Rounding to a double\<close>

text \<open>\<open>bitLength n\<close> is the number of binary digits of \<open>n\<close>.\<close>

fun bitLength :: "nat \<Rightarrow> nat" where
  "bitLength n = (if n = 0 then 0 else Suc (bitLength (n div 2)))"

declare bitLength.simps [simp del]

text \<open>The binary exponent of a real \<open>x \<noteq> 0\<close>: the \<open>e\<close> with \<open>2^e \<le> |x| < 2^(e+1)\<close>.\<close>

definition exponent :: "real \<Rightarrow> int" where
  "exponent x =
     (if 1 \<le> \<bar>x\<bar> then int (bitLength (nat \<lfloor>\<bar>x\<bar>\<rfloor>)) - 1
      else - int (bitLength (nat (\<lceil>1 / \<bar>x\<bar>\<rceil> - 1))))"

text \<open>The nearest integer, a tie going to the even one.\<close>

definition roundEven :: "real \<Rightarrow> int" where
  "roundEven q =
     (let f = \<lfloor>q\<rfloor>; d = q - of_int f
      in if d < 1 / 2 then f else if 1 / 2 < d then f + 1 else if even f then f else f + 1)"

text \<open>
  The result of an arithmetic operation whose exact value is \<open>x\<close>: the IEEE-754 binary64
  number nearest to \<open>x\<close> (53 significant bits, exponents from \<open>-1022\<close>, subnormals below),
  a tie going to the even significand, and an infinity from \<open>2^1024\<close> on.
\<close>

definition roundDouble :: "real \<Rightarrow> jsnum" where
  "roundDouble x =
     (if x = 0 then Num 0
      else
        (let ulp = 2 powi (max (exponent x) (- 1022) - 52);
             r = of_int (roundEven (x / ulp)) * ulp
         in if 2 ^ 1024 \<le> \<bar>r\<bar> then (if 0 < x then PosInf else NegInf) else Num r))"

text \<open>
  \<open>Long.toNumber()\<close> of an unsigned 64-bit value \<open>n\<close>, which is \<open>high * 2^32 + low\<close> in
  double arithmetic: the product is exact and the sum is rounded, so the result is the
  double nearest to \<open>n\<close>, an integer. (No 64-bit value rounds to an infinity.)
\<close>

definition toNumber :: "nat \<Rightarrow> nat" where
  "toNumber n = (case roundDouble (real n) of Num r \<Rightarrow> nat \<lfloor>r\<rfloor> | _ \<Rightarrow> n)"

subsection \<open>Buffer reads\<close>

text \<open>
  The readers below are used inside a bounds check made by the record parser that calls
  them, which is where the library raises \<open>RangeError\<close>.
\<close>

definition byteAt :: "buffer \<Rightarrow> nat \<Rightarrow> nat" where
  "byteAt buf i = unat (buf ! i)"

definition readUInt8 :: "buffer \<Rightarrow> nat \<Rightarrow> nat" where
  "readUInt8 buf off = byteAt buf off"

definition readUInt16 :: "bool \<Rightarrow> buffer \<Rightarrow> nat \<Rightarrow> nat" where
  "readUInt16 isBigEndian buf off =
     (if isBigEndian then 256 * byteAt buf off + byteAt buf (off + 1)
      else byteAt buf off + 256 * byteAt buf (off + 1))"

definition readUInt32 :: "bool \<Rightarrow> buffer \<Rightarrow> nat \<Rightarrow> nat" where
  "readUInt32 isBigEndian buf off =
     (if isBigEndian
      then 16777216 * byteAt buf off + 65536 * byteAt buf (off + 1)
           + 256 * byteAt buf (off + 2) + byteAt buf (off + 3)
      else byteAt buf off + 256 * byteAt buf (off + 1)
           + 65536 * byteAt buf (off + 2) + 16777216 * byteAt buf (off + 3))"

definition readInt32 :: "bool \<Rightarrow> buffer \<Rightarrow> nat \<Rightarrow> int" where
  "readInt32 isBigEndian buf off =
     (let u = int (readUInt32 isBigEndian buf off)
      in if u < 2147483648 then u else u - 4294967296)"

text \<open>
  A \<open>uint64\<close> field is not read by a Buffer method: the parser hands
  \<open>buffer.slice(offset, offset + 8)\<close> to \<open>Long.fromBytes\<close> and returns \<open>toNumber()\<close>
  of the result. A byte that the slice does not have counts as 0, so this read never
  raises.
\<close>

definition byteOrZero :: "buffer \<Rightarrow> nat \<Rightarrow> nat" where
  "byteOrZero buf i = (if i < length buf then byteAt buf i else 0)"

definition readUInt64 :: "bool \<Rightarrow> buffer \<Rightarrow> nat \<Rightarrow> nat" where
  "readUInt64 isBigEndian buf off =
     (let b = (\<lambda>i. byteOrZero buf (off + i));
          first = (if isBigEndian
                   then 16777216 * b 0 + 65536 * b 1 + 256 * b 2 + b 3
                   else b 0 + 256 * b 1 + 65536 * b 2 + 16777216 * b 3);
          second = (if isBigEndian
                    then 16777216 * b 4 + 65536 * b 5 + 256 * b 6 + b 7
                    else b 4 + 256 * b 5 + 65536 * b 6 + 16777216 * b 7)
      in toNumber (if isBigEndian then 4294967296 * first + second
                   else first + 4294967296 * second))"

text \<open>The value of an IEEE-754 binary32 bit pattern, given as an unsigned 32-bit number.\<close>

definition float32 :: "nat \<Rightarrow> jsnum" where
  "float32 u =
     (let negative = (u div 2147483648 = 1);
          e = (u div 8388608) mod 256;
          m = u mod 8388608
      in if e = 255 then (if m \<noteq> 0 then NaN else if negative then NegInf else PosInf)
         else
           (let mag = (if e = 0 then real m / 2 ^ 149
                       else if 150 \<le> e then real (8388608 + m) * 2 ^ (e - 150)
                       else real (8388608 + m) / 2 ^ (150 - e))
            in Num (if negative then - mag else mag)))"

definition readFloat :: "bool \<Rightarrow> buffer \<Rightarrow> nat \<Rightarrow> jsnum" where
  "readFloat isBigEndian buf off = float32 (readUInt32 isBigEndian buf off)"

text \<open>
  \<open>buf.slice(start)\<close>: the bytes from \<open>start\<close> on; a negative \<open>start\<close> counts from the
  end of the buffer, and a start outside the buffer is clamped.
\<close>

definition slice :: "buffer \<Rightarrow> int \<Rightarrow> buffer" where
  "slice buf start =
     (if start < 0 then drop (nat (int (length buf) + start)) buf else drop (nat start) buf)"

section \<open>Features and coordinate requests (blockView.ts)\<close>

text \<open>
  \<open>CoordRequest\<close>: \<open>chrId\<close> is \<open>refsByName[chrName]\<close>, which is \<open>undefined\<close>
  (\<open>None\<close>) for an unknown name.
\<close>

record CoordRequest =
  chrId :: "nat option"
  rq_start :: int
  rq_end :: int

text \<open>
  A feature object. Every property is optional, \<open>None\<close> is \<open>undefined\<close> (for \<open>f_end\<close>
  also the NaN of \<open>undefined + span\<close>): the three decoders build objects with different
  properties.
\<close>

record Feature =
  f_start :: "int option"
  f_end :: "int option"
  f_score :: "jsnum option"
  f_minScore :: "jsnum option"
  f_maxScore :: "jsnum option"
  f_summary :: "bool option"
  f_chromId :: "nat option"
  f_rest :: "buffer option"
  f_uniqueId :: "string option"

definition emptyFeature :: Feature where
  "emptyFeature = \<lparr> f_start = None, f_end = None, f_score = None, f_minScore = None,
     f_maxScore = None, f_summary = None, f_chromId = None, f_rest = None, f_uniqueId = None \<rparr>"

text \<open>
  \<open>coordFilter\<close>: \<open>f.start < range.end && f.end >= range.start\<close>. A comparison with
  \<open>undefined\<close> or NaN is false.
\<close>

definition coordFilter :: "Feature \<Rightarrow> CoordRequest \<Rightarrow> bool" where
  "coordFilter f rng =
     ((case f_start f of None \<Rightarrow> False | Some s \<Rightarrow> s < rq_end rng) \<and>
      (case f_end f of None \<Rightarrow> False | Some e \<Rightarrow> e \<ge> rq_start rng))"

section \<open>The bigWig block decoder (blockView.ts)\<close>

definition BIG_WIG_TYPE_GRAPH :: nat where "BIG_WIG_TYPE_GRAPH = 1"
definition BIG_WIG_TYPE_VSTEP :: nat where "BIG_WIG_TYPE_VSTEP = 2"
definition BIG_WIG_TYPE_FSTEP :: nat where "BIG_WIG_TYPE_FSTEP = 3"

record BigWigResults =
  blockStart :: int
  itemStep :: nat
  itemSpan :: nat
  blockType :: nat
  itemCount :: nat
  items :: "Feature list"

text \<open>
  The three item parsers of the \<open>choice\<close>: a fixed-step item is \<open>float score\<close>, a
  variable-step item \<open>int32 start, float score\<close>, a graph item
  \<open>int32 start, int32 end, float score\<close>. Each is a \<open>new Parser()\<close> on which
  \<open>endianess\<close> is not called, so it reads at the library's default byte order, which is
  little-endian, whatever the byte order of the file.
\<close>

definition fstepItem :: "buffer \<Rightarrow> nat \<Rightarrow> Feature" where
  "fstepItem buf off = emptyFeature \<lparr> f_score := Some (readFloat False buf off) \<rparr>"

definition vstepItem :: "buffer \<Rightarrow> nat \<Rightarrow> Feature" where
  "vstepItem buf off =
     emptyFeature \<lparr> f_start := Some (readInt32 False buf off),
                    f_score := Some (readFloat False buf (off + 4)) \<rparr>"

definition graphItem :: "buffer \<Rightarrow> nat \<Rightarrow> Feature" where
  "graphItem buf off =
     emptyFeature \<lparr> f_start := Some (readInt32 False buf off),
                    f_end := Some (readInt32 False buf (off + 4)),
                    f_score := Some (readFloat False buf (off + 8)) \<rparr>"

text \<open>
  \<open>array(name, {length, type})\<close>: \<open>cnt\<close> records of \<open>sz\<close> bytes each from \<open>off\<close> on.
  The first \<open>checked\<close> bytes of a record are read by Buffer methods, which raise past the
  end of the buffer; the rest of the record is \<open>uint64\<close> fields, whose read does not
  raise.
\<close>

definition parseArray :: "(buffer \<Rightarrow> nat \<Rightarrow> 'a) \<Rightarrow> nat \<Rightarrow> nat \<Rightarrow> nat \<Rightarrow> buffer \<Rightarrow> nat \<Rightarrow> js_error + 'a list" where
  "parseArray item sz checked cnt buf off =
     (if 0 < cnt \<and> length buf < off + (cnt - 1) * sz + checked then Inl RangeError
      else Inr (map (\<lambda>i. item buf (off + i * sz)) [0..<cnt]))"

text \<open>
  \<open>bigWigParser\<close>: the 24-byte header (\<open>skip(4)\<close>, \<open>int32 blockStart\<close>, \<open>skip(4)\<close>,
  \<open>uint32 itemStep\<close>, \<open>uint32 itemSpan\<close>, \<open>uint8 blockType\<close>, \<open>skip(1)\<close>,
  \<open>uint16 itemCount\<close>), then the \<open>choice\<close> on \<open>blockType\<close>. The choice lists the
  three block types and no \<open>defaultChoice\<close>, so any other tag makes the parser raise.
\<close>

definition bigWigParser :: "bool \<Rightarrow> buffer \<Rightarrow> js_error + BigWigResults" where
  "bigWigParser be data =
     (if length data < 24 then Inl RangeError
      else
        (let bStart = readInt32 be data 4;
             step = readUInt32 be data 12;
             span = readUInt32 be data 16;
             btype = readUInt8 data 20;
             cnt = readUInt16 be data 22;
             arr = (if btype = BIG_WIG_TYPE_FSTEP then parseArray fstepItem 4 4 cnt data 24
                    else if btype = BIG_WIG_TYPE_VSTEP then parseArray vstepItem 8 8 cnt data 24
                    else if btype = BIG_WIG_TYPE_GRAPH then parseArray graphItem 12 12 cnt data 24
                    else Inl (ChoiceError btype))
         in case arr of
              Inl e \<Rightarrow> Inl e
            | Inr its \<Rightarrow> Inr \<lparr> blockStart = bStart, itemStep = step, itemSpan = span,
                              blockType = btype, itemCount = cnt, items = its \<rparr>))"

text \<open>
  \<open>parseBigWigBlock(bytes, startOffset, request)\<close>. For a fixed-step block each item is
  mapped to \<open>{...feature, start: index * step, end: index * step + span}\<close>; for a
  variable-step block to \<open>{...feature, end: feature.start + span}\<close>; graph items are
  kept as parsed. With a request the result is filtered by \<open>coordFilter\<close>.
\<close>

definition parseBigWigBlock :: "bool \<Rightarrow> buffer \<Rightarrow> int \<Rightarrow> CoordRequest option \<Rightarrow> js_error + Feature list" where
  "parseBigWigBlock be bytes startOffset request =
     (case bigWigParser be (slice bytes startOffset) of
        Inl e \<Rightarrow> Inl e
      | Inr results \<Rightarrow>
          (let step = itemStep results;
               span = itemSpan results;
               its =
                 (if blockType results = BIG_WIG_TYPE_FSTEP then
                    map (\<lambda>(index, feature).
                          feature \<lparr> f_start := Some (int (index * step)),
                                    f_end := Some (int (index * step + span)) \<rparr>)
                        (enumerate 0 (items results))
                  else if blockType results = BIG_WIG_TYPE_VSTEP then
                    map (\<lambda>feature.
                          feature \<lparr> f_end := (case f_start feature of
                                                None \<Rightarrow> None
                                              | Some s \<Rightarrow> Some (s + int span)) \<rparr>)
                        (items results)
                  else items results)
           in Inr (case request of
                     Some r \<Rightarrow> filter (\<lambda>f. coordFilter f r) its
                   | None \<Rightarrow> its)))"

section \<open>The summary block decoder (blockView.ts)\<close>

record SummaryBlock =
  chromId :: nat
  sb_start :: nat
  sb_end :: nat
  validCnt :: nat
  minScore :: jsnum
  maxScore :: jsnum
  sumData :: jsnum
  sumSqData :: jsnum

text \<open>
  \<open>summaryParser\<close>: four \<open>uint32\<close> and four \<open>float\<close> fields, 32 bytes. \<open>parse\<close>
  returns the record and the number of bytes consumed (\<open>res.offset\<close>).
\<close>

definition summaryParser :: "bool \<Rightarrow> buffer \<Rightarrow> js_error + (SummaryBlock \<times> nat)" where
  "summaryParser be data =
     (if length data < 32 then Inl RangeError
      else Inr (\<lparr> chromId = readUInt32 be data 0,
                   sb_start = readUInt32 be data 4,
                   sb_end = readUInt32 be data 8,
                   validCnt = readUInt32 be data 12,
                   minScore = readFloat be data 16,
                   maxScore = readFloat be data 20,
                   sumData = readFloat be data 24,
                   sumSqData = readFloat be data 28 \<rparr>, 32))"

text \<open>
  The \<open>while (currOffset < data.byteLength)\<close> loop of \<open>parseSummaryBlock\<close>, with the
  array \<open>features\<close> that it pushes to.
\<close>

function summaryLoop :: "bool \<Rightarrow> buffer \<Rightarrow> int \<Rightarrow> SummaryBlock list \<Rightarrow> js_error + SummaryBlock list" where
  "summaryLoop be data currOffset features =
     (if currOffset < int (length data) then
        (case summaryParser be (slice data currOffset) of
           Inl e \<Rightarrow> Inl e
         | Inr (res, n) \<Rightarrow> summaryLoop be data (currOffset + int n) (features @ [res]))
      else Inr features)"
  by pat_completeness auto
termination
  by (relation "measure (\<lambda>(be, data, currOffset, features). nat (int (length data) - currOffset))")
     (auto simp: summaryParser_def split: if_splits)

declare summaryLoop.simps [simp del]

text \<open>
  The operator \<open>/\<close> on a number and a count: the exact quotient rounded to a double, and
  the IEEE result for a zero divisor.
\<close>

definition jsdiv :: "jsnum \<Rightarrow> nat \<Rightarrow> jsnum" where
  "jsdiv x n =
     (case x of
        Num a \<Rightarrow> (if n = 0 then (if a = 0 then NaN else if 0 < a then PosInf else NegInf)
                  else roundDouble (a / real n))
      | PosInf \<Rightarrow> PosInf
      | NegInf \<Rightarrow> NegInf
      | NaN \<Rightarrow> NaN)"

text \<open>The object literal that \<open>parseSummaryBlock\<close> maps each record to.\<close>

definition summaryFeature :: "SummaryBlock \<Rightarrow> Feature" where
  "summaryFeature elt =
     emptyFeature \<lparr> f_start := Some (int (sb_start elt)),
                    f_end := Some (int (sb_end elt)),
                    f_maxScore := Some (maxScore elt),
                    f_minScore := Some (minScore elt),
                    f_score := Some (jsdiv (sumData elt) (if validCnt elt = 0 then 1 else validCnt elt)),
                    f_summary := Some True \<rparr>"

definition parseSummaryBlock :: "bool \<Rightarrow> buffer \<Rightarrow> int \<Rightarrow> CoordRequest option \<Rightarrow> js_error + Feature list" where
  "parseSummaryBlock be data startOffset request =
     (case summaryLoop be data startOffset [] of
        Inl e \<Rightarrow> Inl e
      | Inr features \<Rightarrow>
          (let its = (case request of
                        Some r \<Rightarrow> filter (\<lambda>elt. Some (chromId elt) = chrId r) features
                      | None \<Rightarrow> features);
               its' = map summaryFeature its
           in Inr (case request of
                     Some r \<Rightarrow> filter (\<lambda>f. coordFilter f r) its'
                   | None \<Rightarrow> its')))"

section \<open>The bigBed block decoder (blockView.ts)\<close>

text \<open>The decimal digits of an integer, as the template string \<open>`bb-${...}`\<close> prints it.\<close>

function decimal :: "nat \<Rightarrow> string" where
  "decimal n = (if n < 10 then [char_of (48 + n)] else decimal (n div 10) @ [char_of (48 + n mod 10)])"
  by pat_completeness auto
termination
  by (relation "measure id") auto

declare decimal.simps [simp del]

definition numberToString :: "int \<Rightarrow> string" where
  "numberToString i = (if i < 0 then ''-'' @ decimal (nat (- i)) else decimal (nat i))"

text \<open>
  \<open>bigBedParser\<close>: \<open>uint32 chromId\<close>, \<open>int32 start\<close>, \<open>int32 end\<close> and a
  zero-terminated string \<open>rest\<close>. The terminator is consumed and not part of the string;
  a buffer that ends before a terminator makes the byte-wise scan read past its end.
  \<open>f_rest\<close> holds the bytes of the string, which the parser goes on to decode as UTF-8.
\<close>

definition bigBedParser :: "bool \<Rightarrow> buffer \<Rightarrow> js_error + (Feature \<times> nat)" where
  "bigBedParser be data =
     (if length data < 12 then Inl RangeError
      else
        (let str = takeWhile (\<lambda>b. b \<noteq> 0) (drop 12 data)
         in if 12 + length str = length data then Inl RangeError
            else Inr (emptyFeature \<lparr> f_chromId := Some (readUInt32 be data 0),
                                      f_start := Some (readInt32 be data 4),
                                      f_end := Some (readInt32 be data 8),
                                      f_rest := Some str \<rparr>,
                      12 + length str + 1)))"

function bigBedLoop :: "bool \<Rightarrow> buffer \<Rightarrow> int \<Rightarrow> int \<Rightarrow> Feature list \<Rightarrow> js_error + Feature list" where
  "bigBedLoop be data startOffset currOffset its =
     (if currOffset < int (length data) then
        (case bigBedParser be (slice data currOffset) of
           Inl e \<Rightarrow> Inl e
         | Inr (res, n) \<Rightarrow>
             bigBedLoop be data startOffset (currOffset + int n)
               (its @ [res \<lparr> f_uniqueId := Some (''bb-'' @ numberToString (startOffset + currOffset)) \<rparr>]))
      else Inr its)"
  by pat_completeness auto
termination
  by (relation "measure (\<lambda>(be, data, startOffset, currOffset, its). nat (int (length data) - currOffset))")
     (auto simp: bigBedParser_def Let_def split: if_splits)

declare bigBedLoop.simps [simp del]

definition parseBigBedBlock :: "bool \<Rightarrow> buffer \<Rightarrow> int \<Rightarrow> CoordRequest option \<Rightarrow> js_error + Feature list" where
  "parseBigBedBlock be data startOffset request =
     (case bigBedLoop be data startOffset startOffset [] of
        Inl e \<Rightarrow> Inl e
      | Inr its \<Rightarrow>
          Inr (case request of
                 Some r \<Rightarrow> filter (\<lambda>f. coordFilter f r) its
               | None \<Rightarrow> its))"

section \<open>Grouping of data blocks (util.ts)\<close>

text \<open>
  A data-block descriptor. \<open>groupBlocks\<close> reads the properties \<open>offset\<close> and \<open>size\<close>;
  the descriptors that \<open>cirFobRecur2\<close> of blockView.ts builds carry \<open>offset\<close> and
  \<open>length\<close>. A property that an object does not have reads as \<open>undefined\<close>, here
  \<open>None\<close>. Offsets and sizes are JavaScript numbers with integer values.
\<close>

record Block =
  b_offset :: int
  b_size :: "int option"
  b_length :: "int option"

text \<open>The group objects that \<open>groupBlocks\<close> builds: \<open>{blocks, size, offset}\<close>.\<close>

record BlockGroup =
  blocks :: "Block list"
  g_size :: "int option"
  g_offset :: int

text \<open>
  Arithmetic on values that may be \<open>undefined\<close> or NaN (both \<open>None\<close>): a sum or
  difference with such an operand is NaN, and a comparison with NaN is false.
\<close>

definition jsadd :: "int option \<Rightarrow> int option \<Rightarrow> int option" where
  "jsadd a b = (case a of None \<Rightarrow> None | Some x \<Rightarrow> (case b of None \<Rightarrow> None | Some y \<Rightarrow> Some (x + y)))"

definition jssub :: "int option \<Rightarrow> int option \<Rightarrow> int option" where
  "jssub a b = (case a of None \<Rightarrow> None | Some x \<Rightarrow> (case b of None \<Rightarrow> None | Some y \<Rightarrow> Some (x - y)))"

definition jsle :: "int option \<Rightarrow> int \<Rightarrow> bool" where
  "jsle a k = (case a of None \<Rightarrow> False | Some x \<Rightarrow> x \<le> k)"

text \<open>\<open>x | 0\<close>: the number reduced modulo \<open>2^32\<close> and read as a signed 32-bit value.\<close>

definition toInt32 :: "int \<Rightarrow> int" where
  "toInt32 x = (x + 2147483648) mod 4294967296 - 2147483648"

text \<open>The comparator of \<open>blocks.sort\<close>: \<open>(b0.offset | 0) - (b1.offset | 0)\<close>.\<close>

definition compareBlocks :: "Block \<Rightarrow> Block \<Rightarrow> int" where
  "compareBlocks b0 b1 = toInt32 (b_offset b0) - toInt32 (b_offset b1)"

text \<open>
  \<open>Array.prototype.sort\<close> with a comparator, as a stable insertion sort: an element goes
  before the first element that the comparator does not put before it. Elements that the
  comparator does not tell apart keep their order, as the language requires of \<open>sort\<close>
  since ECMAScript 2019.
\<close>

fun insertBy :: "('a \<Rightarrow> 'a \<Rightarrow> int) \<Rightarrow> 'a \<Rightarrow> 'a list \<Rightarrow> 'a list" where
  "insertBy cmp x [] = [x]"
| "insertBy cmp x (y # ys) = (if cmp x y \<le> 0 then x # y # ys else y # insertBy cmp x ys)"

fun sortBy :: "('a \<Rightarrow> 'a \<Rightarrow> int) \<Rightarrow> 'a list \<Rightarrow> 'a list" where
  "sortBy cmp [] = []"
| "sortBy cmp (x # xs) = insertBy cmp x (sortBy cmp xs)"

text \<open>
  The \<open>for\<close> loop of \<open>groupBlocks\<close> over the sorted array. \<open>lastBlock\<close> is the group
  pushed last, so it is the last element of \<open>blockGroups\<close> and undefined while that
  array is empty; an update of \<open>lastBlock\<close> is an update of that element.
\<close>

fun groupLoop :: "Block list \<Rightarrow> BlockGroup list \<Rightarrow> int option \<Rightarrow> BlockGroup list" where
  "groupLoop [] blockGroups lastBlockEnd = blockGroups"
| "groupLoop (b # bs) blockGroups lastBlockEnd =
     (if blockGroups \<noteq> [] \<and> jsle (jssub (Some (b_offset b)) lastBlockEnd) 2000 then
        (let lastBlock = last blockGroups;
             lastBlock' = lastBlock
               \<lparr> g_size := jsadd (g_size lastBlock)
                              (jsadd (jssub (b_size b) lastBlockEnd) (Some (b_offset b))),
                 blocks := blocks lastBlock @ [b] \<rparr>
         in groupLoop bs (butlast blockGroups @ [lastBlock'])
              (jsadd (Some (g_offset lastBlock')) (g_size lastBlock')))
      else
        (let lastBlock = \<lparr> blocks = [b], g_size = b_size b, g_offset = b_offset b \<rparr>
         in groupLoop bs (blockGroups @ [lastBlock])
              (jsadd (Some (g_offset lastBlock)) (g_size lastBlock))))"

text \<open>
  \<open>groupBlocks(blocks)\<close>. \<open>blocks.sort\<close> sorts the caller's array in place, so the
  result is the pair of the caller's array after the call and the returned groups.
\<close>

definition groupBlocks :: "Block list \<Rightarrow> Block list \<times> BlockGroup list" where
  "groupBlocks blks =
     (let sorted_blocks = sortBy compareBlocks blks
      in (sorted_blocks, groupLoop sorted_blocks [] None))"

section \<open>Ranges (the class Range that blockView.ts imports)\<close>

text \<open>
  A \<open>Range\<close> object has one data property, \<open>ranges\<close>: the array of \<open>{min, max}\<close>
  objects that the constructor stores. \<open>new Range(arg1, arg2)\<close> stores
  \<open>[{min: arg1, max: arg2}]\<close>.
\<close>

record Range =
  ranges :: "(nat \<times> nat) list"

definition newRange :: "nat \<Rightarrow> nat \<Rightarrow> Range" where
  "newRange arg1 arg2 = \<lparr> ranges = [(arg1, arg2)] \<rparr>"

text \<open>\<open>min()\<close> and \<open>max()\<close> read the first and the last entry; on an empty array the
  property access on \<open>undefined\<close> raises.\<close>

definition range_min :: "Range \<Rightarrow> js_error + nat" where
  "range_min r = (case ranges r of [] \<Rightarrow> Inl TypeError | e # _ \<Rightarrow> Inr (fst e))"

definition range_max :: "Range \<Rightarrow> js_error + nat" where
  "range_max r = (case ranges r of [] \<Rightarrow> Inl TypeError | _ # _ \<Rightarrow> Inr (snd (last (ranges r))))"

definition contains :: "Range \<Rightarrow> nat \<Rightarrow> bool" where
  "contains r pos = (\<exists>e \<in> set (ranges r). fst e \<le> pos \<and> snd e \<ge> pos)"

definition getRanges :: "Range \<Rightarrow> Range list" where
  "getRanges r = map (\<lambda>e. newRange (fst e) (snd e)) (ranges r)"

text \<open>
  The call expression \<open>s.ranges()\<close>, as \<open>union\<close>, \<open>intersection\<close> and \<open>coverage\<close>
  write it. The class has no method of that name: \<open>ranges\<close> is the data property
  above, an array, and the call of a value that is not a function raises \<open>TypeError\<close>.
\<close>

definition callRanges :: "Range \<Rightarrow> js_error" where
  "callRanges s = TypeError"

text \<open>
  \<open>union(s1)\<close> starts with \<open>s0.ranges().concat(s1.ranges()).sort(this.rangeOrder)\<close>;
  the first call raises, and the statements after it are not reached.
\<close>

definition union :: "Range \<Rightarrow> Range \<Rightarrow> js_error + Range" where
  "union s0 s1 = Inl (callRanges s0)"

section \<open>The block view (blockView.ts)\<close>

text \<open>
  The fields of a \<open>BlockView\<close> that the query reads. \<open>bbi\<close> is the backing file:
  \<open>bbi bv offset length\<close> is the outcome of \<open>bbi.read(buf, 0, length, offset)\<close>, the
  bytes read or a rejection. \<open>cirTreePromise\<close> says whether that property holds a truthy
  value. The parsers that the constructor attaches are the functions of the sections
  above, at the view's byte order (their item and entry parsers apart, which are
  little-endian).
\<close>

record BlockView =
  cirTreeOffset :: nat
  cirTreeLength :: nat
  isCompressed :: bool
  isBigEndian :: bool
  refsByName :: "string \<rightharpoonup> nat"
  bv_blockType :: string
  cirTreeBuffer :: buffer
  cirTreePromise :: bool
  bbi :: "nat \<Rightarrow> nat \<Rightarrow> js_error + buffer"

text \<open>
  A read into a buffer: the bytes read replace the first bytes of the buffer, and the
  buffer keeps its length.
\<close>

definition readInto :: "buffer \<Rightarrow> buffer \<Rightarrow> buffer" where
  "readInto buf bytes = take (length buf) (bytes @ drop (length bytes) buf)"

text \<open>
  The \<open>fill\<close> function of the feature cache: \<open>Buffer.alloc(length)\<close>, which gives a
  buffer of zero bytes and raises for a length that is not a number or is negative, then
  the read into it. The cache returns what \<open>fill\<close> returns for the key; no abort signal
  is raised.
\<close>

definition fill :: "BlockView \<Rightarrow> int option \<Rightarrow> int \<Rightarrow> js_error + buffer" where
  "fill bv len off =
     (case len of
        None \<Rightarrow> Inl TypeError
      | Some n \<Rightarrow>
          (if n < 0 then Inl RangeError
           else (case bbi bv (nat off) (nat n) of
                   Inl e \<Rightarrow> Inl e
                 | Inr bytes \<Rightarrow> Inr (readInto (replicate (nat n) 0) bytes))))"

subsection \<open>The observer\<close>

datatype Event = Next "Feature list" | Complete | Error js_error

text \<open>The terminal calls of an observer.\<close>

fun terminal :: "Event \<Rightarrow> bool" where
  "terminal (Next fs) = False"
| "terminal Complete = True"
| "terminal (Error e) = True"

subsection \<open>readFeatures\<close>

text \<open>
  The body of \<open>blockGroup.blocks.forEach\<close>: the calls of the observer made for one
  block, or the exception that ends the loop. An unknown \<open>blockType\<close> of the view is
  logged and makes no call.
\<close>

definition decodeBlock :: "(buffer \<Rightarrow> js_error + buffer) \<Rightarrow> BlockView \<Rightarrow> CoordRequest option \<Rightarrow> buffer \<Rightarrow> BlockGroup \<Rightarrow> Block \<Rightarrow> js_error + Event list" where
  "decodeBlock inflateSync bv request data blockGroup block =
     (let offset = b_offset block - g_offset blockGroup
      in case (if isCompressed bv then inflateSync (slice data offset) else Inr data) of
           Inl e \<Rightarrow> Inl e
         | Inr resultData \<Rightarrow>
             (let offset' = (if isCompressed bv then 0 else offset);
                  parsed =
                    (if bv_blockType bv = ''summary'' then
                       map_sum id Some (parseSummaryBlock (isBigEndian bv) resultData offset' request)
                     else if bv_blockType bv = ''bigwig'' then
                       map_sum id Some (parseBigWigBlock (isBigEndian bv) resultData offset' request)
                     else if bv_blockType bv = ''bigbed'' then
                       map_sum id Some (parseBigBedBlock (isBigEndian bv) resultData offset' request)
                     else Inr None)
              in case parsed of
                   Inl e \<Rightarrow> Inl e
                 | Inr None \<Rightarrow> Inr []
                 | Inr (Some fs) \<Rightarrow> Inr [Next fs]))"

fun blocksLoop :: "(Block \<Rightarrow> js_error + Event list) \<Rightarrow> Block list \<Rightarrow> Event list \<times> js_error option" where
  "blocksLoop body [] = ([], None)"
| "blocksLoop body (b # bs) =
     (case body b of
        Inl e \<Rightarrow> ([], Some e)
      | Inr evs \<Rightarrow> (case blocksLoop body bs of (evs', r) \<Rightarrow> (evs @ evs', r)))"

text \<open>
  \<open>const { length, offset } = blockGroup\<close>: the groups built by \<open>groupBlocks\<close> have
  the properties \<open>blocks\<close>, \<open>size\<close> and \<open>offset\<close>, so \<open>length\<close> is undefined.
\<close>

definition group_length :: "BlockGroup \<Rightarrow> int option" where
  "group_length blockGroup = None"

text \<open>The callback that \<open>readFeatures\<close> maps over the groups: the fetch of the group
  through the cache, then the loop over its blocks.\<close>

definition groupFetch :: "(buffer \<Rightarrow> js_error + buffer) \<Rightarrow> BlockView \<Rightarrow> CoordRequest option \<Rightarrow> BlockGroup \<Rightarrow> Event list \<times> js_error option" where
  "groupFetch inflateSync bv request blockGroup =
     (case fill bv (group_length blockGroup) (g_offset blockGroup) of
        Inl e \<Rightarrow> ([], Some e)
      | Inr data \<Rightarrow> blocksLoop (decodeBlock inflateSync bv request data blockGroup) (blocks blockGroup))"

text \<open>
  \<open>readFeatures(observer, blocks, opts)\<close>: the caller's array after the in-place sort,
  the calls made on the observer, and the rejection of the returned promise if any. The
  group callbacks run in the order of the groups (reads finish in the order they are
  issued); a callback that raises ends alone, and \<open>observer.complete()\<close> is reached
  only when \<open>Promise.all\<close> fulfils, that is when none has raised.
\<close>

definition readFeatures :: "(buffer \<Rightarrow> js_error + buffer) \<Rightarrow> BlockView \<Rightarrow> Block list \<Rightarrow> CoordRequest option \<Rightarrow> Block list \<times> Event list \<times> js_error option" where
  "readFeatures inflateSync bv blks request =
     (case groupBlocks blks of
        (blks', blockGroupsToFetch) \<Rightarrow>
          (let rs = map (groupFetch inflateSync bv request) blockGroupsToFetch;
               errs = List.map_filter snd rs
           in (blks',
               concat (map fst rs) @ (if errs = [] then [Complete] else []),
               (case errs of [] \<Rightarrow> None | e # _ \<Rightarrow> Some e))))"

subsection \<open>The CIR tree\<close>

text \<open>
  An entry of a tree node. \<open>blockSize\<close> is read in leaves only. The entry parsers are
  \<open>new Parser()\<close> without a call of \<open>endianess\<close>, so they read little-endian whatever
  the byte order of the file.
\<close>

record CirEntry =
  startChrom :: nat
  startBase :: nat
  endChrom :: nat
  endBase :: nat
  blockOffset :: nat
  blockSize :: "nat option"

text \<open>The result of \<open>leafParser\<close> has the array \<open>blocksToFetch\<close> for a leaf and the
  array \<open>recurOffsets\<close> for an inner node.\<close>

datatype CirNode = BlocksToFetch "CirEntry list" | RecurOffsets "CirEntry list"

definition leafEntry :: "buffer \<Rightarrow> nat \<Rightarrow> CirEntry" where
  "leafEntry buf off =
     \<lparr> startChrom = readUInt32 False buf off, startBase = readUInt32 False buf (off + 4),
       endChrom = readUInt32 False buf (off + 8), endBase = readUInt32 False buf (off + 12),
       blockOffset = readUInt64 False buf (off + 16),
       blockSize = Some (readUInt64 False buf (off + 24)) \<rparr>"

definition recurEntry :: "buffer \<Rightarrow> nat \<Rightarrow> CirEntry" where
  "recurEntry buf off =
     \<lparr> startChrom = readUInt32 False buf off, startBase = readUInt32 False buf (off + 4),
       endChrom = readUInt32 False buf (off + 8), endBase = readUInt32 False buf (off + 12),
       blockOffset = readUInt64 False buf (off + 16),
       blockSize = None \<rparr>"

text \<open>
  \<open>leafParser\<close>: \<open>uint8 isLeaf\<close>, \<open>skip(1)\<close>, \<open>uint16 cnt\<close>, then the \<open>choice\<close> on
  \<open>isLeaf\<close> between 32-byte leaf entries (tag 1) and 24-byte inner entries (tag 0). In
  both the four \<open>uint32\<close> fields, 16 bytes, are read by Buffer methods.
\<close>

definition leafParser :: "bool \<Rightarrow> buffer \<Rightarrow> js_error + CirNode" where
  "leafParser be data =
     (if length data < 4 then Inl RangeError
      else
        (let isLeaf = readUInt8 data 0;
             cnt = readUInt16 be data 2
         in if isLeaf = 1 then map_sum id BlocksToFetch (parseArray leafEntry 32 16 cnt data 4)
            else if isLeaf = 0 then map_sum id RecurOffsets (parseArray recurEntry 24 16 cnt data 4)
            else Inl (ChoiceError isLeaf)))"

text \<open>
  \<open>filterFeats\<close>. With \<open>chrId\<close> undefined each of the four comparisons with it is
  false, and so is the predicate.
\<close>

definition filterFeats :: "CoordRequest \<Rightarrow> CirEntry \<Rightarrow> bool" where
  "filterFeats request b =
     (case chrId request of
        None \<Rightarrow> False
      | Some c \<Rightarrow>
          (startChrom b < c \<or> (startChrom b = c \<and> int (startBase b) \<le> rq_end request)) \<and>
          (endChrom b > c \<or> (endChrom b = c \<and> int (endBase b) \<ge> rq_start request)))"

subsection \<open>readWigData\<close>

text \<open>
  The variables that the closures of \<open>readWigData\<close> share, the calls made on the
  observer so far, the ranges requested from the feature cache as (offset, length), and
  the exceptions that ended an asynchronous function (none of them is caught, and the
  code never calls \<open>observer.error\<close>).
\<close>

record Traversal =
  outstanding :: int
  blocksToFetch :: "Block list"
  events :: "Event list"
  fetches :: "(nat \<times> nat) list"
  rejected :: "js_error list"

text \<open>A started \<open>cirFobStartFetch(off, fr, level)\<close> that waits for its read.\<close>

type_synonym Task = "nat list \<times> Range \<times> nat"

fun unionSpans :: "Range \<Rightarrow> nat list \<Rightarrow> nat \<Rightarrow> js_error + Range" where
  "unionSpans spans [] maxCirBlockSpan = Inr spans"
| "unionSpans spans (o1 # os) maxCirBlockSpan =
     (case union spans (newRange o1 (o1 + maxCirBlockSpan)) of
        Inl e \<Rightarrow> Inl e
      | Inr spans' \<Rightarrow> unionSpans spans' os maxCirBlockSpan)"

text \<open>
  \<open>cirFobRecur(offset, level)\<close>: the new state, and the fetches it starts or the
  exception it raises. It is called with a non-empty array only; on an empty one the one
  fetch it starts is rejected by \<open>Buffer.alloc(NaN)\<close>.
\<close>

definition cirFobRecur :: "nat \<Rightarrow> nat list \<Rightarrow> nat \<Rightarrow> Traversal \<Rightarrow> Traversal \<times> (js_error + Task list)" where
  "cirFobRecur cirBlockSize offset level st =
     (let st1 = st \<lparr> outstanding := outstanding st + int (length offset) \<rparr>;
          maxCirBlockSpan = 4 + cirBlockSize * 32
      in case offset of
           [] \<Rightarrow> (st1 \<lparr> rejected := rejected st1 @ [RangeError] \<rparr>, Inr [])
         | o1 # os \<Rightarrow>
             (case unionSpans (newRange o1 (o1 + maxCirBlockSpan)) os maxCirBlockSpan of
                Inl e \<Rightarrow> (st1, Inl e)
              | Inr spans \<Rightarrow> (st1, Inr (map (\<lambda>fr. (offset, fr, level)) (getRanges spans)))))"

text \<open>\<open>cirFobRecur2(cirBlockData, offset, level)\<close>. The descriptors it appends are
  \<open>{offset: l.blockOffset, length: l.blockSize}\<close>.\<close>

definition cirFobRecur2 :: "BlockView \<Rightarrow> CoordRequest \<Rightarrow> nat \<Rightarrow> buffer \<Rightarrow> int \<Rightarrow> nat \<Rightarrow> Traversal \<Rightarrow> Traversal \<times> (js_error + Task list)" where
  "cirFobRecur2 bv request cirBlockSize cirBlockData offset level st =
     (case leafParser (isBigEndian bv) (slice cirBlockData offset) of
        Inl e \<Rightarrow> (st, Inl e)
      | Inr (BlocksToFetch es) \<Rightarrow>
          (st \<lparr> blocksToFetch := blocksToFetch st @
                   map (\<lambda>l. \<lparr> b_offset = int (blockOffset l), b_size = None,
                               b_length = map_option int (blockSize l) \<rparr>)
                       (filter (filterFeats request) es) \<rparr>,
           Inr [])
      | Inr (RecurOffsets es) \<Rightarrow>
          (let recurOffsets = map blockOffset (filter (filterFeats request) es)
           in if length recurOffsets > 0 then cirFobRecur cirBlockSize recurOffsets (level + 1) st
              else (st, Inr [])))"

text \<open>
  The call \<open>this.readFeatures(observer, blocksToFetch, {...opts, request})\<close>: the array
  is sorted in place, the observer calls are appended, a rejection is recorded.
\<close>

definition callReadFeatures :: "(buffer \<Rightarrow> js_error + buffer) \<Rightarrow> BlockView \<Rightarrow> CoordRequest \<Rightarrow> Traversal \<Rightarrow> Traversal" where
  "callReadFeatures inflateSync bv request st =
     (case readFeatures inflateSync bv (blocksToFetch st) (Some request) of
        (blks', evs, err) \<Rightarrow>
          st \<lparr> blocksToFetch := blks',
               events := events st @ evs,
               rejected := rejected st @ (case err of None \<Rightarrow> [] | Some e \<Rightarrow> [e]) \<rparr>)"

text \<open>
  The \<open>for\<close> loop of \<open>cirFobStartFetch\<close> over \<open>off\<close>, with the fetches started so
  far: the state, the started fetches, and the exception that ended the loop if any.
\<close>

fun fetchLoop :: "(buffer \<Rightarrow> js_error + buffer) \<Rightarrow> BlockView \<Rightarrow> CoordRequest \<Rightarrow> nat \<Rightarrow> buffer \<Rightarrow> nat \<Rightarrow> Range \<Rightarrow> nat \<Rightarrow> nat list \<Rightarrow> Traversal \<Rightarrow> Task list \<Rightarrow> Traversal \<times> Task list \<times> js_error option" where
  "fetchLoop inflateSync bv request cirBlockSize resultBuffer offset fr level [] st started =
     (st, started, None)"
| "fetchLoop inflateSync bv request cirBlockSize resultBuffer offset fr level (o1 # os) st started =
     (if contains fr o1 then
        (case cirFobRecur2 bv request cirBlockSize resultBuffer (int o1 - int offset) level st of
           (st1, Inl e) \<Rightarrow> (st1, started, Some e)
         | (st1, Inr new) \<Rightarrow>
             (let st2 = st1 \<lparr> outstanding := outstanding st1 - 1 \<rparr>;
                  st3 = (if outstanding st2 = 0 then callReadFeatures inflateSync bv request st2
                         else st2)
              in fetchLoop inflateSync bv request cirBlockSize resultBuffer offset fr level os st3
                   (started @ new)))
      else fetchLoop inflateSync bv request cirBlockSize resultBuffer offset fr level os st started)"

text \<open>
  \<open>cirFobStartFetch(off, fr, level)\<close> from its read on: the read of the range through
  the cache, the loop, and the final check that raises \<open>'did not complete'\<close>.
\<close>

definition cirFobStartFetch :: "(buffer \<Rightarrow> js_error + buffer) \<Rightarrow> BlockView \<Rightarrow> CoordRequest \<Rightarrow> nat \<Rightarrow> Task \<Rightarrow> Traversal \<Rightarrow> Traversal \<times> Task list" where
  "cirFobStartFetch inflateSync bv request cirBlockSize task st =
     (case task of (off, fr, level) \<Rightarrow>
        (case (range_min fr, range_max fr) of
           (Inr mn, Inr mx) \<Rightarrow>
             (let len = int mx - int mn;
                  offset = mn;
                  st1 = st \<lparr> fetches := fetches st @ [(offset, nat len)] \<rparr>
              in case fill bv (Some len) (int offset) of
                   Inl e \<Rightarrow> (st1 \<lparr> rejected := rejected st1 @ [e] \<rparr>, [])
                 | Inr resultBuffer \<Rightarrow>
                     (case fetchLoop inflateSync bv request cirBlockSize resultBuffer offset fr level off st1 [] of
                        (st2, started, Some e) \<Rightarrow> (st2 \<lparr> rejected := rejected st2 @ [e] \<rparr>, started)
                      | (st2, started, None) \<Rightarrow>
                          (if outstanding st2 \<noteq> 0
                           then (st2 \<lparr> rejected := rejected st2 @ [DidNotComplete] \<rparr>, started)
                           else (st2, started))))
         | _ \<Rightarrow> (st \<lparr> rejected := rejected st @ [TypeError] \<rparr>, [])))"

text \<open>
  The started fetches run one after the other, in the order in which they were started;
  each runs from its read to its end without interruption. The tree on disk may be
  cyclic, so the number of fetches is bounded by \<open>fuel\<close>, and \<open>None\<close> is a traversal
  that has not ended within it.
\<close>

fun cirRun :: "nat \<Rightarrow> (buffer \<Rightarrow> js_error + buffer) \<Rightarrow> BlockView \<Rightarrow> CoordRequest \<Rightarrow> nat \<Rightarrow> Task list \<Rightarrow> Traversal \<Rightarrow> Traversal option" where
  "cirRun fuel inflateSync bv request cirBlockSize [] st = Some st"
| "cirRun 0 inflateSync bv request cirBlockSize (t # ts) st = None"
| "cirRun (Suc fuel) inflateSync bv request cirBlockSize (t # ts) st =
     (case cirFobStartFetch inflateSync bv request cirBlockSize t st of
        (st', started) \<Rightarrow> cirRun fuel inflateSync bv request cirBlockSize (ts @ started) st')"

text \<open>
  \<open>readWigData(chrName, start, end, observer, opts)\<close>: everything the query does,
  until no fetch is pending. An unknown name makes the call \<open>observer.complete()\<close>;
  there is no \<open>return\<close> after it, so the query goes on with \<open>chrId\<close> undefined.
\<close>

definition readWigData :: "nat \<Rightarrow> (buffer \<Rightarrow> js_error + buffer) \<Rightarrow> BlockView \<Rightarrow> string \<Rightarrow> int \<Rightarrow> int \<Rightarrow> Traversal option" where
  "readWigData fuel inflateSync bv chrName start end' =
     (let chrId' = refsByName bv chrName;
          st0 = \<lparr> outstanding = 0, blocksToFetch = [],
                  events = (if chrId' = None then [Complete] else []),
                  fetches = [], rejected = [] \<rparr>;
          request = \<lparr> chrId = chrId', rq_start = start, rq_end = end' \<rparr>;
          header = (if cirTreePromise bv then Inr (cirTreeBuffer bv)
                    else map_sum id (readInto (cirTreeBuffer bv)) (bbi bv (cirTreeOffset bv) 48))
      in case header of
           Inl e \<Rightarrow> Some (st0 \<lparr> rejected := [e] \<rparr>)
         | Inr buffer \<Rightarrow>
             (let cirBlockSize = readUInt32 (isBigEndian bv) buffer 4
              in case cirFobRecur cirBlockSize [cirTreeOffset bv + 48] 1 st0 of
                   (st1, Inl e) \<Rightarrow> Some (st1 \<lparr> rejected := rejected st1 @ [e] \<rparr>)
                 | (st1, Inr tasks) \<Rightarrow> cirRun fuel inflateSync bv request cirBlockSize tasks st1))"

section \<open>Grouping as the specification words it\<close>







text \<open>
  An observer call is in line with a request when it is not a \<open>next\<close>, or a \<open>next\<close>
  whose features all pass \<open>coordFilter\<close> for the request.
\<close>

definition overlapping :: "CoordRequest \<Rightarrow> Event \<Rightarrow> bool" where
  "overlapping r ev =
     (case ev of
        Next fs \<Rightarrow> list_all (\<lambda>f. coordFilter f r) fs
      | _ \<Rightarrow> True)"

section \<open>Summary features as the specification words them\<close>

text \<open>
  A summary block is a sequence of 32-byte records
  \<open>u32 chromId, u32 start, u32 end, u32 validCnt, f32 minScore, f32 maxScore, f32 sumData,
  f32 sumSqData\<close>. \<open>spec_summary_record\<close> is the record at byte \<open>off\<close> of a buffer.
\<close>

definition spec_summary_record :: "bool \<Rightarrow> buffer \<Rightarrow> nat \<Rightarrow> SummaryBlock" where
  "spec_summary_record be data off =
     \<lparr> chromId = readUInt32 be data off,
       sb_start = readUInt32 be data (off + 4),
       sb_end = readUInt32 be data (off + 8),
       validCnt = readUInt32 be data (off + 12),
       minScore = readFloat be data (off + 16),
       maxScore = readFloat be data (off + 20),
       sumData = readFloat be data (off + 24),
       sumSqData = readFloat be data (off + 28) \<rparr>"

text \<open>
  The score \<open>sumData / max(validCnt, 1)\<close>: the double nearest to the quotient of the two
  numbers; an infinite or NaN \<open>sumData\<close> is the score itself.
\<close>

definition spec_summary_score :: "jsnum \<Rightarrow> nat \<Rightarrow> jsnum" where
  "spec_summary_score s cnt =
     (case s of
        Num a \<Rightarrow> roundDouble (a / real (max cnt 1))
      | PosInf \<Rightarrow> PosInf
      | NegInf \<Rightarrow> NegInf
      | NaN \<Rightarrow> NaN)"

text \<open>
  A record projects to a feature with its \<open>start\<close>, \<open>end\<close>, \<open>minScore\<close> and
  \<open>maxScore\<close>, with that score and with \<open>summary = true\<close>.
\<close>

definition spec_summary_feature :: "SummaryBlock \<Rightarrow> Feature" where
  "spec_summary_feature r =
     \<lparr> f_start = Some (int (sb_start r)), f_end = Some (int (sb_end r)),
       f_score = Some (spec_summary_score (sumData r) (validCnt r)),
       f_minScore = Some (minScore r), f_maxScore = Some (maxScore r),
       f_summary = Some True, f_chromId = None, f_rest = None, f_uniqueId = None \<rparr>"

text \<open>
  With a request, the records kept are those of the requested chromosome that pass
  \<open>start < req.end\<close> and \<open>end \<ge> req.start\<close>.
\<close>

definition spec_summary_kept :: "CoordRequest option \<Rightarrow> SummaryBlock \<Rightarrow> bool" where
  "spec_summary_kept request r =
     (case request of
        None \<Rightarrow> True
      | Some req \<Rightarrow> Some (chromId r) = chrId req \<and> int (sb_start r) < rq_end req
                    \<and> rq_start req \<le> int (sb_end r))"

text \<open>The features of the \<open>n\<close> records that start at byte \<open>start\<close>, in their order.\<close>

definition spec_summary :: "bool \<Rightarrow> buffer \<Rightarrow> nat \<Rightarrow> nat \<Rightarrow> CoordRequest option \<Rightarrow> Feature list" where
  "spec_summary be data start n request =
     map spec_summary_feature
       (filter (spec_summary_kept request)
          (map (\<lambda>k. spec_summary_record be data (start + 32 * k)) [0..<n]))"

section \<open>Inputs used below\<close>

text \<open>A backing file held in memory: a read returns the bytes the file has in the range.\<close>

definition memFile :: "buffer \<Rightarrow> nat \<Rightarrow> nat \<Rightarrow> js_error + buffer" where
  "memFile file off len = Inr (take len (drop off file))"

text \<open>
  A little-endian fixed-step block: \<open>blockStart = 100\<close>, \<open>blockEnd = 120\<close>,
  \<open>itemStep = 10\<close>, \<open>itemSpan = 5\<close>, \<open>blockType = 3\<close>, \<open>itemCount = 2\<close>, and the
  scores 1.0 and 2.0.
\<close>

definition fstepBlock :: buffer where
  "fstepBlock = [0, 0, 0, 0,  100, 0, 0, 0,  120, 0, 0, 0,  10, 0, 0, 0,  5, 0, 0, 0,
                 3, 0,  2, 0,  0, 0, 0x80, 0x3F,  0, 0, 0, 0x40]"

text \<open>A block header whose \<open>blockType\<close> byte is 4, with no items.\<close>

definition unknownTypeBlock :: buffer where
  "unknownTypeBlock = [0, 0, 0, 0,  0, 0, 0, 0,  0, 0, 0, 0,  10, 0, 0, 0,  5, 0, 0, 0,
                       4, 0,  0, 0]"

text \<open>Two descriptors, the first at offset \<open>2^31\<close>, the second at offset 100.\<close>

definition farBlock :: Block where
  "farBlock = \<lparr> b_offset = 2147483648, b_size = Some 10, b_length = None \<rparr>"

definition nearBlock :: Block where
  "nearBlock = \<lparr> b_offset = 100, b_size = Some 10, b_length = None \<rparr>"

text \<open>
  A view with no reference names on a little-endian file: the 48-byte tree header at
  offset 0 with \<open>cirBlockSize = 1\<close>, and at offset 48 the root node, a leaf with no
  entries.
\<close>

definition emptyTreeFile :: buffer where
  "emptyTreeFile = [0, 0, 0, 0,  1, 0, 0, 0] @ replicate 40 0 @ [1, 0,  0, 0]"

definition emptyRefsView :: BlockView where
  "emptyRefsView =
     \<lparr> cirTreeOffset = 0, cirTreeLength = 52, isCompressed = False, isBigEndian = False,
       refsByName = Map.empty, bv_blockType = ''bigwig'', cirTreeBuffer = replicate 48 0,
       cirTreePromise = False, bbi = memFile emptyTreeFile \<rparr>"

text \<open>
  One summary record, little-endian: \<open>chromId = 5\<close>, \<open>start = 100\<close>, \<open>end = 200\<close>,
  \<open>validCnt = 10\<close>, \<open>minScore = -1\<close>, \<open>maxScore = 3\<close>, \<open>sumData = 20\<close>,
  \<open>sumSqData = 50\<close>; the request \<open>(5, 150, 250)\<close>; and the feature expected for it.
\<close>

definition summaryS4 :: buffer where
  "summaryS4 = [5, 0, 0, 0,  100, 0, 0, 0,  200, 0, 0, 0,  10, 0, 0, 0,
                0, 0, 0x80, 0xBF,  0, 0, 0x40, 0x40,  0, 0, 0xA0, 0x41,  0, 0, 0x48, 0x42]"

definition requestS4 :: CoordRequest where
  "requestS4 = \<lparr> chrId = Some 5, rq_start = 150, rq_end = 250 \<rparr>"

definition featureS4 :: Feature where
  "featureS4 = emptyFeature \<lparr> f_start := Some 100, f_end := Some 200, f_score := Some (Num 2),
       f_minScore := Some (Num (- 1)), f_maxScore := Some (Num 3), f_summary := Some True \<rparr>"

text \<open>
  A little-endian summary block of five records and the request \<open>(5, 150, 350)\<close>. The
  first record is the one above; the second is \<open>(5, 200, 300)\<close> with \<open>validCnt = 0\<close> and
  \<open>sumData = 7\<close>; the third is \<open>(5, 300, 400)\<close> with \<open>validCnt = 3\<close> and \<open>sumData = 1\<close>;
  the fourth, \<open>(5, 400, 500)\<close>, starts after the request; the fifth, \<open>(6, 100, 200)\<close>, is
  on another chromosome.
\<close>

definition summaryRecords :: buffer where
  "summaryRecords =
     [5, 0, 0, 0,  100, 0, 0, 0,  200, 0, 0, 0,  10, 0, 0, 0,
      0, 0, 0x80, 0xBF,  0, 0, 0x40, 0x40,  0, 0, 0xA0, 0x41,  0, 0, 0x48, 0x42,
      5, 0, 0, 0,  200, 0, 0, 0,  0x2C, 1, 0, 0,  0, 0, 0, 0,
      0, 0, 0xE0, 0x40,  0, 0, 0xE0, 0x40,  0, 0, 0xE0, 0x40,  0, 0, 0x44, 0x42,
      5, 0, 0, 0,  0x2C, 1, 0, 0,  0x90, 1, 0, 0,  3, 0, 0, 0,
      0, 0, 0, 0,  0, 0, 0x80, 0x3F,  0, 0, 0x80, 0x3F,  0, 0, 0x80, 0x3F,
      5, 0, 0, 0,  0x90, 1, 0, 0,  0xF4, 1, 0, 0,  1, 0, 0, 0,
      0, 0, 0x80, 0x3F,  0, 0, 0x80, 0x3F,  0, 0, 0x80, 0x3F,  0, 0, 0x80, 0x3F,
      6, 0, 0, 0,  100, 0, 0, 0,  200, 0, 0, 0,  1, 0, 0, 0,
      0, 0, 0x80, 0x3F,  0, 0, 0x80, 0x3F,  0, 0, 0x80, 0x3F,  0, 0, 0x80, 0x3F]"

definition requestRecords :: CoordRequest where
  "requestRecords = \<lparr> chrId = Some 5, rq_start = 150, rq_end = 350 \<rparr>"

definition featuresRecords :: "Feature list" where
  "featuresRecords =
     [emptyFeature \<lparr> f_start := Some 100, f_end := Some 200, f_score := Some (Num 2),
        f_minScore := Some (Num (- 1)), f_maxScore := Some (Num 3), f_summary := Some True \<rparr>,
      emptyFeature \<lparr> f_start := Some 200, f_end := Some 300, f_score := Some (Num 7),
        f_minScore := Some (Num 7), f_maxScore := Some (Num 7), f_summary := Some True \<rparr>,
      emptyFeature \<lparr> f_start := Some 300, f_end := Some 400,
        f_score := Some (Num (6004799503160661 / 18014398509481984)),
        f_minScore := Some (Num 0), f_maxScore := Some (Num 1), f_summary := Some True \<rparr>]"

text \<open>
  A view of a little-endian, uncompressed bigWig file; a fixed-step block with
  \<open>blockStart = 0\<close>, \<open>itemStep = 10\<close>, \<open>itemSpan = 5\<close> and three items of score 0;
  the request \<open>(0, 12, 14)\<close>; the feature expected for it; and a group that holds the
  block alone.
\<close>

definition wigView :: BlockView where
  "wigView = emptyRefsView \<lparr> refsByName := [''chr1'' \<mapsto> 0] \<rparr>"

definition fstepS5 :: buffer where
  "fstepS5 = [0, 0, 0, 0,  0, 0, 0, 0,  25, 0, 0, 0,  10, 0, 0, 0,  5, 0, 0, 0,
              3, 0,  3, 0,  0, 0, 0, 0,  0, 0, 0, 0,  0, 0, 0, 0]"

definition requestS5 :: CoordRequest where
  "requestS5 = \<lparr> chrId = Some 0, rq_start = 12, rq_end = 14 \<rparr>"

definition featureS5 :: Feature where
  "featureS5 = emptyFeature \<lparr> f_start := Some 10, f_end := Some 15, f_score := Some (Num 0) \<rparr>"

definition blockS5 :: Block where
  "blockS5 = \<lparr> b_offset = 4096, b_size = None, b_length = Some 36 \<rparr>"

definition groupS5 :: BlockGroup where
  "groupS5 = \<lparr> blocks = [blockS5], g_size = None, g_offset = 4096 \<rparr>"



definition swappedBlocks :: "Block list" where
  "swappedBlocks = [\<lparr> b_offset = 1300, b_size = Some 100, b_length = None \<rparr>,
                    \<lparr> b_offset = 1000, b_size = Some 200, b_length = None \<rparr>]"

section \<open>Evaluation\<close>

lemmas reader_defs = byteAt_def readUInt8_def readUInt16_def readUInt32_def readInt32_def
  readFloat_def float32_def slice_def

lemmas round_defs = roundDouble_def exponent_def roundEven_def bitLength.simps

lemmas bigwig_defs = parseBigWigBlock_def bigWigParser_def parseArray_def fstepItem_def
  vstepItem_def graphItem_def BIG_WIG_TYPE_FSTEP_def BIG_WIG_TYPE_VSTEP_def
  BIG_WIG_TYPE_GRAPH_def emptyFeature_def coordFilter_def

section \<open>The fixed-step decoder and the block start\<close>

text \<open>
  C1. The claim: the feature at index \<open>i\<close> of a fixed-step block starts at
  \<open>blockStart + i * itemStep\<close> and ends at \<open>start + itemSpan\<close>. On the block
  \<open>fstepBlock\<close>, whose header has \<open>blockStart = 100\<close>, \<open>itemStep = 10\<close> and
  \<open>itemSpan = 5\<close>, \<open>parseBigWigBlock\<close> returns the features [0, 5) and [10, 15), not
  [100, 105) and [110, 115): the parsed \<open>blockStart\<close> is not added.
\<close>

theorem parseBigWigBlock_fstep_drops_blockStart:
  "map_sum id blockStart (bigWigParser False fstepBlock) = Inr 100 \<and>
   map_sum id (map (\<lambda>f. (f_start f, f_end f))) (parseBigWigBlock False fstepBlock 0 None) =
     Inr [(Some 0, Some 5), (Some 10, Some 15)]"
  by (simp add: fstepBlock_def bigwig_defs reader_defs Let_def upt_conv_Cons enumerate_eq_zip)

text \<open>
  For every fixed-step block the feature at index \<open>i\<close> starts at \<open>i * itemStep\<close>,
  whatever \<open>blockStart\<close> is.
\<close>

lemma parseBigWigBlock_fstep_starts:
  assumes "bigWigParser be (slice bytes startOffset) = Inr results"
    and "blockType results = BIG_WIG_TYPE_FSTEP"
    and "parseBigWigBlock be bytes startOffset None = Inr fs"
    and "i < length fs"
  shows "f_start (fs ! i) = Some (int (i * itemStep results)) \<and>
         f_end (fs ! i) = Some (int (i * itemStep results + itemSpan results))"
  using assms by (auto simp: parseBigWigBlock_def Let_def nth_enumerate_eq)

section \<open>Block types outside 1, 2 and 3\<close>

text \<open>
  C9. The claim: a block whose \<open>blockType\<close> is none of 1, 2, 3 is decoded to no
  features, with a logged warning and without an error. On \<open>unknownTypeBlock\<close>
  (\<open>blockType = 4\<close>) \<open>parseBigWigBlock\<close> raises the parser's error for an unknown
  choice tag, with and without a request, and returns no list.
\<close>

theorem parseBigWigBlock_unknown_type_raises:
  "parseBigWigBlock False unknownTypeBlock 0 None = Inl (ChoiceError 4) \<and>
   parseBigWigBlock False unknownTypeBlock 0 (Some \<lparr> chrId = Some 0, rq_start = 0, rq_end = 1000 \<rparr>)
     = Inl (ChoiceError 4)"
  by (simp add: unknownTypeBlock_def bigwig_defs reader_defs Let_def)

text \<open>
  The same for every block with a whole header and another type byte.
\<close>

lemma parseBigWigBlock_other_type_raises:
  assumes "24 \<le> length (slice bytes startOffset)"
    and "readUInt8 (slice bytes startOffset) 20 \<notin> {1, 2, 3}"
  shows "parseBigWigBlock be bytes startOffset request
           = Inl (ChoiceError (readUInt8 (slice bytes startOffset) 20))"
  using assms by (simp add: bigwig_defs Let_def)

section \<open>Rounding to a double\<close>

text \<open>
  \<open>exponent\<close> is the binary exponent, and a number with a 53-bit significand in the range
  of the doubles is left as it is by \<open>roundDouble\<close>; the value of every 32-bit float is
  such a number.
\<close>

lemma bitLength_pos: "0 < n \<Longrightarrow> 0 < bitLength n"
  by (subst bitLength.simps) simp

lemma bitLength_bounds: "0 < n \<Longrightarrow> 2 ^ (bitLength n - 1) \<le> n \<and> n < 2 ^ bitLength n"
proof (induction n rule: bitLength.induct)
  case (1 n)
  have bl: "bitLength n = Suc (bitLength (n div 2))"
    using "1.prems" by (subst bitLength.simps) simp
  show ?case
  proof (cases "n div 2 = 0")
    case True
    then have "n = 1" using "1.prems" by presburger
    then show ?thesis by (simp add: bitLength.simps)
  next
    case False
    then have pos: "0 < n div 2" by simp
    from "1.IH" "1.prems" pos
    have IH: "2 ^ (bitLength (n div 2) - 1) \<le> n div 2" "n div 2 < 2 ^ bitLength (n div 2)"
      by simp_all
    have "(2::nat) ^ bitLength (n div 2) = 2 * 2 ^ (bitLength (n div 2) - 1)"
      using bitLength_pos[OF pos] by (cases "bitLength (n div 2)") simp_all
    then have "(2::nat) ^ (bitLength n - 1) \<le> 2 * (n div 2)"
      using IH(1) by (simp add: bl)
    moreover have "n < 2 * (n div 2) + 2" by presburger
    moreover have "2 * (n div 2) + 2 \<le> 2 ^ bitLength n"
      using IH(2) by (simp add: bl)
    ultimately show ?thesis by linarith
  qed
qed

lemma exponent_bounds:
  assumes "x \<noteq> 0"
  shows "2 powi exponent x \<le> \<bar>x\<bar> \<and> \<bar>x\<bar> < 2 powi (exponent x + 1)"
proof (cases "1 \<le> \<bar>x\<bar>")
  case True
  define n where "n = nat \<lfloor>\<bar>x\<bar>\<rfloor>"
  have n: "0 < n" "real n \<le> \<bar>x\<bar>" "\<bar>x\<bar> < real n + 1"
    using True by (simp_all add: n_def)
  have e: "exponent x = int (bitLength n) - 1"
    using True by (simp add: exponent_def n_def)
  have b: "0 < bitLength n" using n(1) by (rule bitLength_pos)
  from bitLength_bounds[OF n(1)]
  have "2 ^ (bitLength n - 1) \<le> n" "Suc n \<le> 2 ^ bitLength n" by simp_all
  then have "real (2 ^ (bitLength n - 1)) \<le> real n" "real (Suc n) \<le> real (2 ^ bitLength n)"
    by (simp_all only: of_nat_le_iff)
  then have bb: "(2::real) ^ (bitLength n - 1) \<le> real n" "real n + 1 \<le> 2 ^ bitLength n"
    by simp_all
  have p1: "(2::real) powi (int (bitLength n) - 1) = 2 ^ (bitLength n - 1)"
    using b by (simp add: power_int_def nat_diff_distrib')
  have p2: "(2::real) powi (int (bitLength n) - 1 + 1) = 2 ^ bitLength n"
    by (simp add: power_int_def)
  show ?thesis unfolding e p1 p2 using n bb by linarith
next
  case False
  define y where "y = 1 / \<bar>x\<bar>"
  have y: "1 < y" "\<bar>x\<bar> = 1 / y" "0 < \<bar>x\<bar>"
    using False assms by (simp_all add: y_def)
  define m where "m = nat (\<lceil>y\<rceil> - 1)"
  have m: "0 < m" "real m < y" "y \<le> real m + 1"
    using y(1) by (simp_all add: m_def) linarith+
  have e: "exponent x = - int (bitLength m)"
    using False by (simp add: exponent_def m_def y_def)
  have b: "0 < bitLength m" using m(1) by (rule bitLength_pos)
  from bitLength_bounds[OF m(1)]
  have "2 ^ (bitLength m - 1) \<le> m" "Suc m \<le> 2 ^ bitLength m" by simp_all
  then have "real (2 ^ (bitLength m - 1)) \<le> real m" "real (Suc m) \<le> real (2 ^ bitLength m)"
    by (simp_all only: of_nat_le_iff)
  then have bb: "(2::real) ^ (bitLength m - 1) \<le> real m" "real m + 1 \<le> 2 ^ bitLength m"
    by simp_all
  have p1: "(2::real) powi (- int (bitLength m)) = 1 / 2 ^ bitLength m"
    by (simp add: power_int_minus_divide)
  have p2: "(2::real) powi (- int (bitLength m) + 1) = 1 / 2 ^ (bitLength m - 1)"
    using b by (cases "bitLength m") (simp_all add: power_int_def field_simps)
  have "y \<le> 2 ^ bitLength m" "(2::real) ^ (bitLength m - 1) < y"
    using bb m by linarith+
  then have "1 / 2 ^ bitLength m \<le> 1 / y" "1 / y < 1 / 2 ^ (bitLength m - 1)"
    using y(1) by (simp_all add: frac_le frac_less2)
  then show ?thesis unfolding e p1 p2 y(2) by linarith
qed

lemma exponent_le:
  assumes "x \<noteq> 0" and "\<bar>x\<bar> < 2 powi (E + 1)"
  shows "exponent x \<le> E"
proof (rule ccontr)
  assume "\<not> exponent x \<le> E"
  then have "E + 1 \<le> exponent x" by simp
  then have "(2::real) powi (E + 1) \<le> 2 powi exponent x"
    by (intro power_int_increasing) simp_all
  with exponent_bounds[OF assms(1)] assms(2) show False by linarith
qed

lemma roundEven_of_int: "roundEven (of_int j) = j"
  by (simp add: roundEven_def)

lemma roundDouble_representable:
  assumes x: "x = of_int M * 2 powi k" and M: "\<bar>M\<bar> < 2 ^ 53" and k: "- 1074 \<le> k"
    and fin: "\<bar>x\<bar> < 2 ^ 1024"
  shows "roundDouble x = Num x"
proof (cases "x = 0")
  case True
  then show ?thesis by (simp add: roundDouble_def)
next
  case False
  have "\<bar>x\<bar> = real_of_int \<bar>M\<bar> * 2 powi k"
    by (simp add: x abs_mult)
  also have "\<dots> < 2 ^ 53 * 2 powi k"
  proof -
    have "real_of_int \<bar>M\<bar> < real_of_int (2 ^ 53)" using M by (simp only: of_int_less_iff)
    then show ?thesis by (simp add: zero_less_power_int)
  qed
  also have "\<dots> = 2 powi (k + 52 + 1)"
    by (simp add: power_int_add)
  finally have "exponent x \<le> k + 52"
    using False by (intro exponent_le)
  define s where "s = max (exponent x) (- 1022) - 52"
  have s: "s \<le> k" using \<open>exponent x \<le> k + 52\<close> k by (simp add: s_def)
  have "x / 2 powi s = of_int M * 2 powi (k - s)"
    by (simp add: x power_int_diff)
  also have "\<dots> = of_int (M * 2 ^ nat (k - s))"
    using s by (simp add: power_int_def)
  finally have q: "x / 2 powi s = of_int (M * 2 ^ nat (k - s))" .
  have "of_int (roundEven (x / 2 powi s)) * 2 powi s = x / 2 powi s * 2 powi s"
    by (simp only: q roundEven_of_int)
  also have "\<dots> = x" by simp
  finally have r: "of_int (roundEven (x / 2 powi s)) * 2 powi s = x" .
  show ?thesis
    using False fin by (simp add: roundDouble_def Let_def r flip: s_def)
qed

lemma float32_representable:
  assumes "float32 u = Num a"
  shows "\<exists>M k. a = of_int M * 2 powi k \<and> \<bar>M\<bar> < 2 ^ 24 \<and> - 149 \<le> k \<and> k \<le> 104"
proof -
  define e where "e = (u div 8388608) mod 256"
  define m where "m = u mod 8388608"
  define mag where "mag = (if e = 0 then real m / 2 ^ 149
                       else if 150 \<le> e then real (8388608 + m) * 2 ^ (e - 150)
                       else real (8388608 + m) / 2 ^ (150 - e))"
  have e: "e < 255"
  proof -
    have "e < 256" by (simp add: e_def)
    moreover have "e \<noteq> 255" using assms by (auto simp: float32_def Let_def e_def split: if_splits)
    ultimately show ?thesis by simp
  qed
  have m: "m < 8388608" by (simp add: m_def)
  have a: "a = mag \<or> a = - mag"
    using assms e by (auto simp: float32_def Let_def e_def m_def mag_def split: if_splits)
  have "\<exists>M k. mag = of_int M * 2 powi k \<and> 0 \<le> M \<and> M < 2 ^ 24 \<and> - 149 \<le> k \<and> k \<le> 104"
  proof (cases "e = 0")
    case True
    have "mag = of_int (int m) * 2 powi (- 149)"
      using True by (simp add: mag_def power_int_minus_divide)
    then show ?thesis using m by (intro exI[of _ "int m"] exI[of _ "- 149"]) simp
  next
    case False
    have "mag = of_int (int (8388608 + m)) * 2 powi (int e - 150)"
      using False by (simp add: mag_def power_int_def nat_diff_distrib' field_simps power_diff)
    then show ?thesis using m e False
      by (intro exI[of _ "int (8388608 + m)"] exI[of _ "int e - 150"]) simp
  qed
  then obtain M k where Mk: "mag = of_int M * 2 powi k" "0 \<le> M" "M < 2 ^ 24" "- 149 \<le> k" "k \<le> 104"
    by blast
  from a show ?thesis
  proof
    assume "a = mag"
    then show ?thesis using Mk by (intro exI[of _ M] exI[of _ k]) simp
  next
    assume "a = - mag"
    then show ?thesis using Mk by (intro exI[of _ "- M"] exI[of _ k]) simp
  qed
qed

lemma roundDouble_float32:
  assumes "float32 u = Num a"
  shows "roundDouble a = Num a"
proof -
  from float32_representable[OF assms]
  obtain M k where Mk: "a = of_int M * 2 powi k" "\<bar>M\<bar> < 2 ^ 24" "- 149 \<le> k" "k \<le> 104"
    by blast
  have "\<bar>a\<bar> = real_of_int \<bar>M\<bar> * 2 powi k" by (simp add: Mk(1) abs_mult)
  also have "\<dots> \<le> 2 ^ 24 * 2 powi 104"
  proof (intro mult_mono)
    have "real_of_int \<bar>M\<bar> \<le> real_of_int (2 ^ 24)" using Mk(2) by (simp only: of_int_le_iff)
    then show "real_of_int \<bar>M\<bar> \<le> 2 ^ 24" by simp
    show "(2::real) powi k \<le> 2 powi 104" using Mk(4) by (intro power_int_increasing) simp_all
  qed simp_all
  also have "\<dots> < 2 ^ 1024" by simp
  finally have "\<bar>a\<bar> < 2 ^ 1024" .
  moreover have "\<bar>M\<bar> < 2 ^ 53" using Mk(2) by simp
  moreover have "- 1074 \<le> k" using Mk(3) by simp
  ultimately show ?thesis using Mk(1) by (intro roundDouble_representable[of a M k])
qed

lemma exponent_ge:
  assumes "x \<noteq> 0" and "2 powi E \<le> \<bar>x\<bar>"
  shows "E \<le> exponent x"
proof (rule ccontr)
  assume "\<not> E \<le> exponent x"
  then have "exponent x + 1 \<le> E" by simp
  then have "(2::real) powi (exponent x + 1) \<le> 2 powi E"
    by (intro power_int_increasing) simp_all
  with exponent_bounds[OF assms(1)] assms(2) show False by linarith
qed

lemma roundEven_near: "\<bar>real_of_int (roundEven q) - q\<bar> \<le> 1 / 2"
  unfolding roundEven_def Let_def by (auto split: if_splits)

lemma roundDouble_nearest:
  assumes "2 powi (- 1022) \<le> \<bar>x\<bar>" and "\<bar>x\<bar> < 2 ^ 1023"
  shows "\<exists>j. roundDouble x = Num (of_int j * 2 powi (exponent x - 52)) \<and>
             \<bar>of_int j * 2 powi (exponent x - 52) - x\<bar> \<le> 2 powi (exponent x - 52) / 2"
proof -
  have x0: "x \<noteq> 0"
    using assms(1) zero_less_power_int[of "2::real" "- 1022"] by auto
  define e where "e = exponent x"
  have lo: "- 1022 \<le> e" unfolding e_def using x0 assms(1) by (rule exponent_ge)
  have "\<bar>x\<bar> < 2 powi (1022 + 1)" using assms(2) by simp
  then have hi: "e \<le> 1022" unfolding e_def using x0 by (intro exponent_le)
  define ulp :: real where "ulp = 2 powi (e - 52)"
  have ulp: "0 < ulp" by (simp add: ulp_def zero_less_power_int)
  define j where "j = roundEven (x / ulp)"
  have "of_int j * ulp - x = (of_int j - x / ulp) * ulp"
    using ulp by (simp add: field_simps)
  then have "\<bar>of_int j * ulp - x\<bar> = \<bar>of_int j - x / ulp\<bar> * ulp"
    using ulp by (simp only: abs_mult abs_of_pos)
  also have "\<dots> \<le> 1 / 2 * ulp"
    using roundEven_near[of "x / ulp"] ulp unfolding j_def by (intro mult_right_mono) simp_all
  finally have near: "\<bar>of_int j * ulp - x\<bar> \<le> ulp / 2" by simp
  have "ulp \<le> 2 powi (1022 - 52)"
    unfolding ulp_def using hi by (intro power_int_increasing) simp_all
  then have "ulp \<le> 2 ^ 970" by simp
  moreover have "(2::real) ^ 970 \<le> 2 ^ 1023" "(2::real) ^ 1024 = 2 * 2 ^ 1023"
    by simp_all
  ultimately have "\<bar>of_int j * ulp\<bar> < 2 ^ 1024"
    using near assms(2) ulp by linarith
  then have "roundDouble x = Num (of_int j * ulp)"
    using x0 lo by (simp add: roundDouble_def Let_def j_def ulp_def e_def max_def)
  then show ?thesis using near unfolding ulp_def e_def by blast
qed

text \<open>
  A 64-bit value below \<open>2^53\<close> is read as it is; above, \<open>2^53 + 1\<close> is read as \<open>2^53\<close>
  and \<open>2^64 - 1\<close> as \<open>2^64\<close>.
\<close>

lemma toNumber_small:
  assumes "n < 2 ^ 53"
  shows "toNumber n = n"
proof -
  have "real n < real (2 ^ 53)" using assms by (simp only: of_nat_less_iff)
  then have "\<bar>real n\<bar> < 2 ^ 1024" by simp
  moreover have "\<bar>int n\<bar> < 2 ^ 53" using assms by simp
  ultimately have "roundDouble (real n) = Num (real n)"
    by (intro roundDouble_representable[of "real n" "int n" 0]) simp_all
  then show ?thesis by (simp add: toNumber_def)
qed

lemma toNumber_tie: "toNumber 9007199254740993 = 9007199254740992"
  by (simp add: toNumber_def round_defs Let_def)

lemma toNumber_max: "toNumber 18446744073709551615 = 18446744073709551616"
  by (simp add: toNumber_def round_defs Let_def)

lemma roundDouble_third: "roundDouble (1 / 3) = Num (6004799503160661 / 18014398509481984)"
  by (simp add: round_defs Let_def)

lemma roundDouble_tenth: "roundDouble (1 / 10) = Num (3602879701896397 / 36028797018963968)"
  by (simp add: round_defs Let_def)

section \<open>The score of a summary feature\<close>

lemma count_or_one: "(if n = 0 then 1 else n) = max n (1::nat)"
  by (simp add: max_def)

lemma jsdiv_float32_one: "jsdiv (float32 u) (Suc 0) = float32 u"
  by (cases "float32 u") (simp_all add: jsdiv_def roundDouble_float32)

lemma byteAt_slice:
  "0 \<le> cur \<Longrightarrow> cur \<le> int (length data) \<Longrightarrow> byteAt (slice data cur) i = byteAt data (nat cur + i)"
  by (simp add: byteAt_def slice_def)

lemma readUInt32_slice:
  "0 \<le> cur \<Longrightarrow> cur \<le> int (length data) \<Longrightarrow>
   readUInt32 be (slice data cur) i = readUInt32 be data (nat cur + i)"
  by (simp add: readUInt32_def byteAt_slice add.assoc)

lemma readFloat_slice:
  "0 \<le> cur \<Longrightarrow> cur \<le> int (length data) \<Longrightarrow>
   readFloat be (slice data cur) i = readFloat be data (nat cur + i)"
  by (simp add: readFloat_def readUInt32_slice)

lemma summaryParser_at:
  assumes "0 \<le> cur" and "cur + 32 \<le> int (length data)"
  shows "summaryParser be (slice data cur) = Inr (spec_summary_record be data (nat cur), 32)"
proof -
  have len: "32 \<le> length (slice data cur)"
    using assms by (simp add: slice_def)
  have le: "cur \<le> int (length data)" using assms by simp
  show ?thesis
    using len
    by (simp add: summaryParser_def spec_summary_record_def readUInt32_slice[OF assms(1) le]
        readFloat_slice[OF assms(1) le])
qed

lemma summaryLoop_records:
  "0 \<le> cur \<Longrightarrow> int (length data) = cur + 32 * int n \<Longrightarrow>
   summaryLoop be data cur acc
     = Inr (acc @ map (\<lambda>k. spec_summary_record be data (nat cur + 32 * k)) [0..<n])"
proof (induction n arbitrary: cur acc)
  case 0
  then show ?case by (subst summaryLoop.simps) simp
next
  case (Suc n)
  have p: "summaryParser be (slice data cur) = Inr (spec_summary_record be data (nat cur), 32)"
    using Suc.prems by (intro summaryParser_at) simp_all
  have "0 \<le> cur + 32" "int (length data) = (cur + 32) + 32 * int n"
    using Suc.prems by simp_all
  note IH = Suc.IH[OF this, of "acc @ [spec_summary_record be data (nat cur)]"]
  have shift: "map (\<lambda>k. spec_summary_record be data (nat (cur + 32) + 32 * k)) [0..<n]
             = map (\<lambda>k. spec_summary_record be data (nat cur + 32 * k)) (map Suc [0..<n])"
    using Suc.prems(1) by (simp add: nat_add_distrib add.assoc)
  have "summaryLoop be data cur acc
          = summaryLoop be data (cur + 32) (acc @ [spec_summary_record be data (nat cur)])"
    using Suc.prems p by (subst summaryLoop.simps) simp
  also have "\<dots> = Inr (acc @ map (\<lambda>k. spec_summary_record be data (nat cur + 32 * k)) [0..<Suc n])"
    unfolding IH shift by (simp add: upt_conv_Cons map_Suc_upt del: upt_Suc)
  finally show ?case .
qed

lemma summaryFeature_spec: "summaryFeature elt = spec_summary_feature elt"
  by (cases "sumData elt")
     (simp_all add: summaryFeature_def spec_summary_feature_def spec_summary_score_def jsdiv_def
        emptyFeature_def count_or_one)

lemma coordFilter_summary:
  "coordFilter (spec_summary_feature elt) r
     = (int (sb_start elt) < rq_end r \<and> rq_start r \<le> int (sb_end elt))"
  by (simp add: coordFilter_def spec_summary_feature_def)

text \<open>
  C8. A block that holds \<open>n\<close> whole 32-byte records from \<open>startOffset\<close> on is decoded
  without an exception, and the result is the list of the features of these records, in
  their order: the record at byte \<open>startOffset + 32 k\<close> gives the feature with its start,
  end, \<open>minScore\<close> and \<open>maxScore\<close>, with \<open>summary = true\<close> and with the score
  \<open>sumData / max(validCnt, 1)\<close>; with a request, the records of another chromosome or
  outside the requested range give no feature. For a record with \<open>validCnt = 0\<close> the
  object that the decoder maps it to has the score \<open>sumData\<close> itself.
\<close>

theorem parseSummaryBlock_score:
  assumes "0 \<le> startOffset" and "int (length data) = startOffset + 32 * int n"
  shows "parseSummaryBlock be data startOffset request
           = Inr (spec_summary be data (nat startOffset) n request) \<and>
         (\<forall>k<n. validCnt (spec_summary_record be data (nat startOffset + 32 * k)) = 0 \<longrightarrow>
            f_score (summaryFeature (spec_summary_record be data (nat startOffset + 32 * k)))
              = Some (sumData (spec_summary_record be data (nat startOffset + 32 * k))))"
proof
  have loop: "summaryLoop be data startOffset []
                = Inr (map (\<lambda>k. spec_summary_record be data (nat startOffset + 32 * k)) [0..<n])"
    using summaryLoop_records[OF assms, of be "[]"] by simp
  have sf: "summaryFeature = spec_summary_feature"
    by (rule ext) (rule summaryFeature_spec)
  show "parseSummaryBlock be data startOffset request
          = Inr (spec_summary be data (nat startOffset) n request)"
  proof (cases request)
    case None
    then show ?thesis
      by (simp add: parseSummaryBlock_def loop sf spec_summary_def spec_summary_kept_def)
  next
    case (Some r)
    have "filter (\<lambda>f. coordFilter f r)
            (map spec_summary_feature (filter (\<lambda>elt. Some (chromId elt) = chrId r) recs))
          = map spec_summary_feature (filter (spec_summary_kept (Some r)) recs)" for recs
      by (induction recs) (simp_all add: coordFilter_summary spec_summary_kept_def)
    then show ?thesis
      using Some by (simp add: parseSummaryBlock_def loop sf spec_summary_def)
  qed
next
  show "\<forall>k<n. validCnt (spec_summary_record be data (nat startOffset + 32 * k)) = 0 \<longrightarrow>
            f_score (summaryFeature (spec_summary_record be data (nat startOffset + 32 * k)))
              = Some (sumData (spec_summary_record be data (nat startOffset + 32 * k)))"
    by (simp add: summaryFeature_def emptyFeature_def spec_summary_record_def readFloat_def
        jsdiv_float32_one)
qed

theorem parseSummaryBlock_score_witness:
  "0 \<le> (0::int) \<and> int (length summaryRecords) = 0 + 32 * int 5 \<and>
   parseSummaryBlock False summaryRecords 0 (Some requestRecords) = Inr featuresRecords"
  using parseSummaryBlock_score[of 0 summaryRecords 5 False "Some requestRecords"]
  by (simp add: summaryRecords_def requestRecords_def featuresRecords_def spec_summary_def
      spec_summary_kept_def spec_summary_feature_def spec_summary_record_def spec_summary_score_def
      emptyFeature_def byteAt_def readUInt32_def readFloat_def float32_def round_defs Let_def
      upt_conv_Cons)

text \<open>The record of S4 under its request, evaluated by the decoder itself.\<close>

lemma parseSummaryBlock_S4:
  "parseSummaryBlock False summaryS4 0 (Some requestS4) = Inr [featureS4]"
  apply (simp add: parseSummaryBlock_def)
  apply (subst summaryLoop.simps)
  apply (simp add: summaryParser_def summaryS4_def reader_defs Let_def)
  apply (subst summaryLoop.simps)
  apply (simp add: requestS4_def summaryFeature_def featureS4_def emptyFeature_def coordFilter_def
      jsdiv_def round_defs Let_def)
  done

section \<open>Features handed to the observer overlap the request\<close>

lemma coordFilter_overlap:
  "coordFilter f r \<Longrightarrow> \<exists>s e. f_start f = Some s \<and> f_end f = Some e \<and> s < rq_end r \<and> e \<ge> rq_start r"
  by (auto simp: coordFilter_def split: option.splits)

lemma parseSummaryBlock_filtered:
  "parseSummaryBlock be data off (Some r) = Inr fs \<Longrightarrow> f \<in> set fs \<Longrightarrow> coordFilter f r"
  by (auto simp: parseSummaryBlock_def Let_def split: sum.splits)

lemma parseBigWigBlock_filtered:
  "parseBigWigBlock be data off (Some r) = Inr fs \<Longrightarrow> f \<in> set fs \<Longrightarrow> coordFilter f r"
  by (auto simp: parseBigWigBlock_def Let_def split: sum.splits)

lemma parseBigBedBlock_filtered:
  "parseBigBedBlock be data off (Some r) = Inr fs \<Longrightarrow> f \<in> set fs \<Longrightarrow> coordFilter f r"
  by (auto simp: parseBigBedBlock_def Let_def split: sum.splits)

lemma map_sum_Some_eq: "(map_sum id Some x = Inr (Some fs)) = (x = Inr fs)"
  by (cases x) auto

text \<open>
  C7. \<open>readWigData\<close> starts \<open>readFeatures\<close> with its request, and \<open>readFeatures\<close>
  calls \<open>observer.next\<close> in one place, with the list that the decoder of the view's
  block type returns for a block under that request. Whatever the block type, every
  feature \<open>f\<close> of a list handed to \<open>observer.next\<close> under a request \<open>r\<close> has a
  start and an end with \<open>f.start < r.end\<close> and \<open>f.end \<ge> r.start\<close>.
\<close>

theorem decodeBlock_features_overlap_request:
  assumes "decodeBlock inflateSync bv (Some r) data blockGroup block = Inr evs"
    and "Next fs \<in> set evs" and "f \<in> set fs"
  shows "\<exists>s e. f_start f = Some s \<and> f_end f = Some e \<and> s < rq_end r \<and> e \<ge> rq_start r"
proof -
  have "coordFilter f r"
    using assms
    by (auto simp: decodeBlock_def Let_def map_sum_Some_eq
          dest: parseSummaryBlock_filtered parseBigWigBlock_filtered parseBigBedBlock_filtered
          split: sum.splits if_splits option.splits)
  then show ?thesis by (rule coordFilter_overlap)
qed

lemma decodeBlock_S5:
  "decodeBlock Inr wigView (Some requestS5) fstepS5 groupS5 blockS5 = Inr [Next [featureS5]]"
  by (simp add: decodeBlock_def wigView_def emptyRefsView_def groupS5_def blockS5_def fstepS5_def
      requestS5_def featureS5_def bigwig_defs reader_defs Let_def upt_conv_Cons enumerate_eq_zip)

theorem decodeBlock_features_overlap_request_witness:
  "decodeBlock Inr wigView (Some requestS5) fstepS5 groupS5 blockS5 = Inr [Next [featureS5]] \<and>
   (\<exists>s e. f_start featureS5 = Some s \<and> f_end featureS5 = Some e \<and>
          s < rq_end requestS5 \<and> e \<ge> rq_start requestS5)"
  using decodeBlock_features_overlap_request[of Inr wigView requestS5 fstepS5 groupS5 blockS5
      "[Next [featureS5]]" "[featureS5]" featureS5] decodeBlock_S5
  by simp

text \<open>
  The same through a whole query: \<open>readWigData\<close> hands its own request to
  \<open>readFeatures\<close>, and nothing else calls \<open>next\<close>, so every call of the observer in
  the query is in line with the request \<open>(chrId, start, end)\<close>.
\<close>

lemma decodeBlock_overlapping:
  "decodeBlock inflateSync bv (Some r) data blockGroup block = Inr evs \<Longrightarrow>
   list_all (overlapping r) evs"
  by (auto simp: decodeBlock_def Let_def map_sum_Some_eq overlapping_def list_all_iff
        dest: parseSummaryBlock_filtered parseBigWigBlock_filtered parseBigBedBlock_filtered
        split: sum.splits if_splits option.splits)

lemma blocksLoop_overlapping:
  "(\<And>b evs. body b = Inr evs \<Longrightarrow> list_all (overlapping r) evs) \<Longrightarrow>
   list_all (overlapping r) (fst (blocksLoop body bs))"
  by (induction bs) (auto split: sum.splits prod.splits)

lemma groupFetch_overlapping:
  "list_all (overlapping r) (fst (groupFetch inflateSync bv (Some r) blockGroup))"
proof (cases "fill bv (group_length blockGroup) (g_offset blockGroup)")
  case (Inl e)
  then show ?thesis by (simp add: groupFetch_def)
next
  case (Inr data)
  have "list_all (overlapping r)
      (fst (blocksLoop (decodeBlock inflateSync bv (Some r) data blockGroup) (blocks blockGroup)))"
    by (rule blocksLoop_overlapping) (rule decodeBlock_overlapping)
  then show ?thesis using Inr by (simp add: groupFetch_def)
qed

lemma readFeatures_overlapping:
  "list_all (overlapping r) (fst (snd (readFeatures inflateSync bv blks (Some r))))"
  using groupFetch_overlapping[of r inflateSync bv]
  by (auto simp: readFeatures_def Let_def list_all_iff overlapping_def split: prod.splits)

lemma callReadFeatures_overlapping:
  "list_all (overlapping r) (events st) \<Longrightarrow>
   list_all (overlapping r) (events (callReadFeatures inflateSync bv r st))"
  using readFeatures_overlapping[of r inflateSync bv "blocksToFetch st"]
  by (auto simp: callReadFeatures_def split: prod.splits)

lemma cirFobRecur_events:
  "events (fst (cirFobRecur cirBlockSize offset level st)) = events st"
  by (auto simp: cirFobRecur_def Let_def split: list.splits sum.splits)

lemma cirFobRecur2_events:
  "events (fst (cirFobRecur2 bv request cirBlockSize cirBlockData offset level st)) = events st"
  by (auto simp: cirFobRecur2_def Let_def cirFobRecur_events split: sum.splits CirNode.splits)

lemma fetchLoop_overlapping:
  "list_all (overlapping r) (events st) \<Longrightarrow>
   list_all (overlapping r)
     (events (fst (fetchLoop inflateSync bv r cirBlockSize resultBuffer offset fr level off st started)))"
proof (induction off arbitrary: st started)
  case Nil
  then show ?case by simp
next
  case (Cons o1 os)
  show ?case
  proof (cases "contains fr o1")
    case False
    then show ?thesis using Cons by simp
  next
    case True
    obtain st1 res where r2: "cirFobRecur2 bv r cirBlockSize resultBuffer (int o1 - int offset) level st = (st1, res)"
      by (cases "cirFobRecur2 bv r cirBlockSize resultBuffer (int o1 - int offset) level st")
    have ev1: "events st1 = events st"
      using cirFobRecur2_events[of bv r cirBlockSize resultBuffer "int o1 - int offset" level st] r2 by simp
    show ?thesis
    proof (cases res)
      case (Inl e)
      then show ?thesis using True r2 ev1 Cons.prems by simp
    next
      case (Inr new)
      let ?st2 = "st1 \<lparr> outstanding := outstanding st1 - 1 \<rparr>"
      let ?st3 = "if outstanding ?st2 = 0 then callReadFeatures inflateSync bv r ?st2 else ?st2"
      have st2ok: "list_all (overlapping r) (events ?st2)" using ev1 Cons.prems by simp
      have "list_all (overlapping r) (events ?st3)"
      proof (cases "outstanding ?st2 = 0")
        case True
        show ?thesis unfolding if_P[OF True] by (rule callReadFeatures_overlapping[OF st2ok])
      next
        case False
        show ?thesis unfolding if_not_P[OF False] by (rule st2ok)
      qed
      then show ?thesis
        using True r2 Inr Cons.IH[of ?st3 "started @ new"] by (simp add: Let_def)
    qed
  qed
qed

lemma cirFobStartFetch_overlapping:
  assumes "list_all (overlapping r) (events st)"
  shows "list_all (overlapping r)
           (events (fst (cirFobStartFetch inflateSync bv r cirBlockSize task st)))"
proof -
  obtain off fr level where task: "task = (off, fr, level)" by (cases task)
  show ?thesis
  proof (cases "range_min fr")
    case (Inl e)
    then show ?thesis using assms task by (simp add: cirFobStartFetch_def)
  next
    case mn: (Inr mn)
    show ?thesis
    proof (cases "range_max fr")
      case (Inl e)
      then show ?thesis using assms task mn by (simp add: cirFobStartFetch_def)
    next
      case mx: (Inr mx)
      let ?st1 = "st \<lparr> fetches := fetches st @ [(mn, nat (int mx - int mn))] \<rparr>"
      have st1: "list_all (overlapping r) (events ?st1)" using assms by simp
      show ?thesis
      proof (cases "fill bv (Some (int mx - int mn)) (int mn)")
        case (Inl e)
        then show ?thesis using task mn mx st1 by (simp add: cirFobStartFetch_def Let_def)
      next
        case (Inr resultBuffer)
        obtain st2 started err where
          fl: "fetchLoop inflateSync bv r cirBlockSize resultBuffer mn fr level off ?st1 [] = (st2, started, err)"
          by (cases "fetchLoop inflateSync bv r cirBlockSize resultBuffer mn fr level off ?st1 []")
        have "list_all (overlapping r) (events st2)"
          using fetchLoop_overlapping[OF st1, of inflateSync bv cirBlockSize resultBuffer mn fr level off "[]"] fl
          by simp
        then show ?thesis
          using task mn mx Inr fl by (simp add: cirFobStartFetch_def Let_def split: option.splits)
      qed
    qed
  qed
qed

lemma cirRun_overlapping:
  "cirRun fuel inflateSync bv r cirBlockSize tasks st = Some t \<Longrightarrow>
   list_all (overlapping r) (events st) \<Longrightarrow> list_all (overlapping r) (events t)"
proof (induction fuel inflateSync bv r cirBlockSize tasks st rule: cirRun.induct)
  case (1 fuel inflateSync bv request cirBlockSize st)
  then show ?case by simp
next
  case (2 inflateSync bv request cirBlockSize t ts st)
  then show ?case by simp
next
  case (3 fuel inflateSync bv request cirBlockSize task ts st)
  obtain st' started where f: "cirFobStartFetch inflateSync bv request cirBlockSize task st = (st', started)"
    by (cases "cirFobStartFetch inflateSync bv request cirBlockSize task st")
  have "list_all (overlapping request) (events st')"
    using cirFobStartFetch_overlapping[OF "3.prems"(2), of inflateSync bv cirBlockSize task] f by simp
  moreover have "cirRun fuel inflateSync bv request cirBlockSize (ts @ started) st' = Some t"
    using "3.prems"(1) f by simp
  ultimately show ?case using "3.IH"[OF f[symmetric]] by simp
qed

lemma readWigData_overlapping:
  assumes "readWigData fuel inflateSync bv chrName start end' = Some t"
    and "Next fs \<in> set (events t)" and "f \<in> set fs"
  shows "\<exists>s e. f_start f = Some s \<and> f_end f = Some e \<and> s < end' \<and> e \<ge> start"
proof -
  let ?r = "\<lparr> chrId = refsByName bv chrName, rq_start = start, rq_end = end' \<rparr>"
  let ?st0 = "\<lparr> outstanding = 0, blocksToFetch = [],
                 events = (if refsByName bv chrName = None then [Complete] else []),
                 fetches = [], rejected = [] \<rparr>"
  have st0: "list_all (overlapping ?r) (events ?st0)"
    by (simp add: overlapping_def)
  have "list_all (overlapping ?r) (events t)"
  proof (cases "if cirTreePromise bv then Inr (cirTreeBuffer bv)
                else map_sum id (readInto (cirTreeBuffer bv)) (bbi bv (cirTreeOffset bv) 48)")
    case (Inl e)
    then have "t = ?st0 \<lparr> rejected := [e] \<rparr>"
      using assms(1) by (simp add: readWigData_def Let_def)
    then show ?thesis using st0 by simp
  next
    case (Inr buffer)
    let ?cbs = "readUInt32 (isBigEndian bv) buffer 4"
    obtain st1 res where rec: "cirFobRecur ?cbs [cirTreeOffset bv + 48] 1 ?st0 = (st1, res)"
      by (cases "cirFobRecur ?cbs [cirTreeOffset bv + 48] 1 ?st0")
    have ev1: "events st1 = events ?st0"
      using cirFobRecur_events[of ?cbs "[cirTreeOffset bv + 48]" 1 ?st0] rec by simp
    show ?thesis
    proof (cases res)
      case (Inl e)
      then have "t = st1 \<lparr> rejected := rejected st1 @ [e] \<rparr>"
        using assms(1) Inr rec by (simp add: readWigData_def Let_def)
      then show ?thesis using st0 ev1 by simp
    next
      case tasks: (Inr tasks)
      then have "cirRun fuel inflateSync bv ?r ?cbs tasks st1 = Some t"
        using assms(1) Inr rec by (simp add: readWigData_def Let_def)
      then show ?thesis
        using st0 ev1 by (intro cirRun_overlapping[of fuel inflateSync bv ?r ?cbs tasks st1 t]) simp_all
    qed
  qed
  then have "coordFilter f ?r"
    using assms(2,3) by (auto simp: list_all_iff overlapping_def)
  then show ?thesis using coordFilter_overlap[of f ?r] by simp
qed

text \<open>
  In \<open>readFeatures\<close> itself the fetch of a group comes before the decoding of its
  blocks, and it reads the property \<open>length\<close>, which the groups do not have.
\<close>

lemma groupFetch_raises:
  "groupFetch inflateSync bv request blockGroup = ([], Some TypeError)"
  by (simp add: groupFetch_def group_length_def fill_def)

lemma readFeatures_never_calls_next:
  "Next fs \<notin> set (fst (snd (readFeatures inflateSync bv blks request)))"
  by (auto simp: readFeatures_def Let_def groupFetch_raises split: prod.splits)

section \<open>The grouping loop and the sort\<close>

lemma insertBy_insort_key:
  assumes "\<And>x y. (cmp x y \<le> 0) = (key x \<le> key y)"
  shows "insertBy cmp x ys = insort_key key x ys"
  by (induction ys) (simp_all add: assms)

lemma sortBy_sort_key:
  assumes "\<And>x y. (cmp x y \<le> 0) = (key x \<le> key y)"
  shows "sortBy cmp xs = sort_key key xs"
  by (induction xs) (simp_all add: insertBy_insort_key[OF assms])

lemma compareBlocks_key:
  "(compareBlocks b0 b1 \<le> 0) = (toInt32 (b_offset b0) \<le> toInt32 (b_offset b1))"
  by (simp add: compareBlocks_def)

lemma groupBlocks_sorted_array:
  "fst (groupBlocks blks) = sort_key (\<lambda>b. toInt32 (b_offset b)) blks"
  by (simp add: groupBlocks_def Let_def sortBy_sort_key[OF compareBlocks_key])

lemma toInt32_id: "0 \<le> x \<Longrightarrow> x < 2147483648 \<Longrightarrow> toInt32 x = x"
  by (simp add: toInt32_def)

lemma insort_key_cong_set:
  "f x = g x \<Longrightarrow> \<forall>y \<in> set ys. f y = g y \<Longrightarrow> insort_key f x ys = insort_key g x ys"
  by (induction ys) auto

lemma sort_key_cong_set:
  "\<forall>y \<in> set xs. f y = g y \<Longrightarrow> sort_key f xs = sort_key g xs"
proof (induction xs)
  case Nil
  then show ?case by simp
next
  case (Cons x xs)
  then have "sort_key f xs = sort_key g xs" by simp
  moreover have "insort_key f x (sort_key g xs) = insort_key g x (sort_key g xs)"
    using Cons.prems by (intro insort_key_cong_set) auto
  ultimately show ?case by simp
qed











section \<open>The order that groupBlocks sorts into\<close>

text \<open>
  C5. The claim: \<open>groupBlocks\<close> orders the blocks ascending by offset read as an
  unsigned integer, without truncation to 32 bits. On the array of a descriptor at offset
  \<open>2^31\<close> followed by one at offset 100, the comparator is
  \<open>(2^31 | 0) - (100 | 0) = - 2^31 - 100\<close>, so the sort keeps the descriptor at \<open>2^31\<close>
  first.
\<close>

theorem groupBlocks_sort_truncates_offsets:
  "compareBlocks farBlock nearBlock = - 2147483748 \<and>
   fst (groupBlocks [farBlock, nearBlock]) = [farBlock, nearBlock]"
  by (simp add: groupBlocks_def compareBlocks_def toInt32_def farBlock_def nearBlock_def Let_def)

section \<open>The caller's array after groupBlocks\<close>

text \<open>
  \<open>blocks.sort\<close> sorts the caller's array in place: after the call the array holds the
  same descriptors, and when all offsets are from 0 to below \<open>2^31\<close> they are in
  ascending offset order. An array with the offsets 1300, 1000 is left as 1000, 1300.
\<close>

lemma groupBlocks_sorts_small_offsets:
  "mset (fst (groupBlocks blks)) = mset blks \<and>
   ((\<forall>b \<in> set blks. 0 \<le> b_offset b \<and> b_offset b < 2147483648) \<longrightarrow>
      sorted (map b_offset (fst (groupBlocks blks))))"
proof -
  have "map b_offset (sort_key (\<lambda>b. toInt32 (b_offset b)) blks) = map b_offset (sort_key b_offset blks)"
    if "\<forall>b \<in> set blks. 0 \<le> b_offset b \<and> b_offset b < 2147483648"
    using that sort_key_cong_set[of blks "\<lambda>b. toInt32 (b_offset b)" b_offset]
    by (simp add: toInt32_id)
  then show ?thesis
    by (simp add: groupBlocks_sorted_array)
qed

lemma groupBlocks_swappedBlocks:
  "fst (groupBlocks swappedBlocks) = rev swappedBlocks \<and>
   sorted (map b_offset (fst (groupBlocks swappedBlocks)))"
  by (simp add: swappedBlocks_def groupBlocks_def compareBlocks_def toInt32_def Let_def)

text \<open>
  C10. The claim: for every input array the call leaves the caller's array reordered,
  sorted by offset. On the array of \<open>farBlock\<close> and \<open>nearBlock\<close> the call leaves the
  array with the offsets \<open>2^31\<close>, 100 in this order, which is not ascending: the
  comparator of the sort truncates the offsets to 32 bits.
\<close>

theorem groupBlocks_far_offset_not_sorted:
  "map b_offset (fst (groupBlocks [farBlock, nearBlock])) = [2147483648, 100] \<and>
   \<not> sorted (map b_offset (fst (groupBlocks [farBlock, nearBlock])))"
  by (simp add: groupBlocks_def compareBlocks_def toInt32_def farBlock_def nearBlock_def Let_def)

section \<open>Range.union\<close>

text \<open>
  C6. The claim: \<open>union\<close> is commutative, associative and idempotent, and returns
  sorted interval lists whose neighbours are at least 2 apart. \<open>union\<close> returns no
  interval list: \<open>new Range(0, 10).union(new Range(20, 30))\<close> raises \<open>TypeError\<close>.
\<close>

theorem union_raises_TypeError:
  "union (newRange 0 10) (newRange 20 30) = Inl TypeError"
  by (simp add: union_def callRanges_def)

text \<open>
  The same for every pair of ranges, and so for every round of the traversal that has
  two or more node offsets: \<open>cirFobRecur\<close> raises after it has counted them.
\<close>

lemma union_never_returns: "union s0 s1 = Inl TypeError"
  by (simp add: union_def callRanges_def)

lemma cirFobRecur_two_offsets:
  "cirFobRecur cirBlockSize (o1 # o2 # os) level st =
     (st \<lparr> outstanding := outstanding st + int (length (o1 # o2 # os)) \<rparr>, Inl TypeError)"
  by (simp add: cirFobRecur_def union_never_returns Let_def)

section \<open>A query for an unknown reference name\<close>

lemma readFeatures_no_blocks:
  "readFeatures inflateSync bv [] request = ([], [Complete], None)"
  by (simp add: readFeatures_def groupBlocks_def List.map_filter_simps)

lemma emptyRefsView_fields:
  "cirTreeOffset emptyRefsView = 0" "isBigEndian emptyRefsView = False"
  "refsByName emptyRefsView = Map.empty" "cirTreePromise emptyRefsView = False"
  "cirTreeBuffer emptyRefsView = replicate 48 0"
  "bbi emptyRefsView = memFile emptyTreeFile"
  by (simp_all add: emptyRefsView_def)

lemma emptyTreeFile_header:
  "readUInt32 False (readInto (replicate 48 0) (take 48 (drop 0 emptyTreeFile))) 4 = 1"
  by (simp add: readInto_def emptyTreeFile_def reader_defs)

lemma emptyTreeFile_root:
  "leafParser False (slice (readInto (replicate 36 0) (take 36 (drop 48 emptyTreeFile))) 0)
     = Inr (BlocksToFetch [])"
  by (simp add: readInto_def emptyTreeFile_def leafParser_def parseArray_def reader_defs Let_def)

lemma readWigData_emptyRefsView:
  "readWigData 1 Inr emptyRefsView ''chr1'' 0 1000 =
     Some \<lparr> outstanding = 0, blocksToFetch = [], events = [Complete, Complete],
            fetches = [(48, 36)], rejected = [] \<rparr>"
proof -
  let ?rq = "\<lparr> chrId = None, rq_start = 0, rq_end = 1000 \<rparr>"
  let ?st0 = "\<lparr> outstanding = 0, blocksToFetch = [], events = [Complete],
                 fetches = [], rejected = [] \<rparr>"
  let ?st1 = "\<lparr> outstanding = 1, blocksToFetch = [], events = [Complete],
                 fetches = [], rejected = [] \<rparr>"
  have start: "cirFobRecur 1 [48] 1 ?st0 = (?st1, Inr [([48], newRange 48 84, 1)])"
    by (simp add: cirFobRecur_def getRanges_def newRange_def Let_def)
  have node: "cirFobRecur2 emptyRefsView ?rq 1
        (readInto (replicate 36 0) (take 36 (drop 48 emptyTreeFile))) 0 1 st = (st, Inr [])" for st
    using emptyTreeFile_root by (simp add: cirFobRecur2_def emptyRefsView_fields)
  have fetch: "cirFobStartFetch Inr emptyRefsView ?rq 1 ([48], newRange 48 84, 1) ?st1 =
      (\<lparr> outstanding = 0, blocksToFetch = [], events = [Complete, Complete],
         fetches = [(48, 36)], rejected = [] \<rparr>, [])"
    using node
    by (simp add: cirFobStartFetch_def range_min_def range_max_def newRange_def fill_def
        contains_def callReadFeatures_def readFeatures_no_blocks Let_def
        emptyRefsView_fields memFile_def)
  show ?thesis
    using emptyTreeFile_header start fetch
    by (simp add: readWigData_def Let_def emptyRefsView_fields memFile_def)
qed

text \<open>
  The same on every fresh view whose tree header and root node can be read and whose
  root node parses: with \<open>chrId\<close> undefined no entry of the root passes
  \<open>filterFeats\<close>, so the traversal ends at the root and starts \<open>readFeatures\<close> with
  no blocks.
\<close>

lemma filterFeats_unknown: "chrId request = None \<Longrightarrow> filter (filterFeats request) es = []"
  by (induction es) (simp_all add: filterFeats_def)

lemma cirFobRecur2_unknown:
  assumes "chrId request = None"
    and "leafParser (isBigEndian bv) (slice cirBlockData offset) = Inr node"
  shows "cirFobRecur2 bv request cirBlockSize cirBlockData offset level st = (st, Inr [])"
  using assms by (cases node) (simp_all add: cirFobRecur2_def filterFeats_unknown)

lemma cirFobStartFetch_completes:
  assumes "range_min fr = Inr mn" and "range_max fr = Inr mx"
    and "fill bv (Some (int mx - int mn)) (int mn) = Inr resultBuffer"
    and "fetchLoop inflateSync bv request cirBlockSize resultBuffer mn fr level off
           (st \<lparr> fetches := fetches st @ [(mn, nat (int mx - int mn))] \<rparr>) []
         = (st2, started, None)"
    and "outstanding st2 = 0"
  shows "cirFobStartFetch inflateSync bv request cirBlockSize (off, fr, level) st = (st2, started)"
  using assms by (simp add: cirFobStartFetch_def Let_def)

lemma readWigData_unknown_name:
  assumes name: "refsByName bv chrName = None"
    and fresh: "\<not> cirTreePromise bv"
    and header: "bbi bv (cirTreeOffset bv) 48 = Inr hdr"
    and size: "cirBlockSize = readUInt32 (isBigEndian bv) (readInto (cirTreeBuffer bv) hdr) 4"
    and root: "bbi bv (cirTreeOffset bv + 48) (4 + cirBlockSize * 32) = Inr bytes"
    and node: "leafParser (isBigEndian bv)
                 (readInto (replicate (4 + cirBlockSize * 32) 0) bytes) = Inr nd"
  shows "readWigData (Suc fuel) inflateSync bv chrName start end' =
           Some \<lparr> outstanding = 0, blocksToFetch = [], events = [Complete, Complete],
                  fetches = [(cirTreeOffset bv + 48, 4 + cirBlockSize * 32)], rejected = [] \<rparr>"
proof -
  let ?rq = "\<lparr> chrId = None, rq_start = start, rq_end = end' \<rparr>"
  let ?st0 = "\<lparr> outstanding = 0, blocksToFetch = [], events = [Complete],
                 fetches = [], rejected = [] \<rparr>"
  let ?st1 = "\<lparr> outstanding = 1, blocksToFetch = [], events = [Complete],
                 fetches = [], rejected = [] \<rparr>"
  let ?end = "\<lparr> outstanding = 0, blocksToFetch = [], events = [Complete, Complete],
                 fetches = [(cirTreeOffset bv + 48, 4 + cirBlockSize * 32)], rejected = [] \<rparr>"
  define o1 where "o1 = cirTreeOffset bv + 48"
  define m where "m = 4 + cirBlockSize * 32"
  define buf where "buf = readInto (replicate m 0) bytes"
  let ?fr = "newRange o1 (o1 + m)"
  have start: "cirFobRecur cirBlockSize [o1] 1 ?st0 = (?st1, Inr [([o1], ?fr, 1)])"
    by (simp add: cirFobRecur_def getRanges_def newRange_def Let_def m_def)
  have node': "cirFobRecur2 bv ?rq cirBlockSize buf 0 (Suc 0) st = (st, Inr [])" for st
    using node by (intro cirFobRecur2_unknown) (simp_all add: slice_def buf_def m_def)
  have len: "int (o1 + m) - int o1 = int m" by simp
  have root': "bbi bv o1 m = Inr bytes"
    using root by (simp add: o1_def m_def)
  have fill: "fill bv (Some (int (o1 + m) - int o1)) (int o1) = Inr buf"
    unfolding len by (simp add: fill_def buf_def root')
  have inside: "contains ?fr o1" by (simp add: contains_def newRange_def)
  have loop: "fetchLoop inflateSync bv ?rq cirBlockSize buf o1 ?fr 1 [o1]
        (?st1 \<lparr> fetches := fetches ?st1 @ [(o1, nat (int (o1 + m) - int o1))] \<rparr>) []
      = (?end, [], None)"
    unfolding len using inside
    by (simp add: node' callReadFeatures_def readFeatures_no_blocks Let_def o1_def m_def)
  have fetch: "cirFobStartFetch inflateSync bv ?rq cirBlockSize ([o1], ?fr, 1) ?st1 = (?end, [])"
    by (rule cirFobStartFetch_completes[OF _ _ fill loop])
       (simp_all add: range_min_def range_max_def newRange_def)
  have "cirRun (Suc fuel) inflateSync bv ?rq cirBlockSize [([o1], ?fr, 1)] ?st1 = Some ?end"
    using fetch by simp
  then show ?thesis
    using name fresh header size[symmetric] start
    by (simp add: readWigData_def Let_def o1_def)
qed

text \<open>
  C2. The claim: for a name that is not in \<open>refsByName\<close>, \<open>readWigData\<close> calls
  \<open>observer.complete()\<close> and returns at once, with no index traversal and no call of
  \<open>observer.next\<close>. On \<open>emptyRefsView\<close> the query for \<open>chr1\<close> goes on after the call:
  it requests the 36 bytes of the root node at offset 48 from the cache and decodes the
  node. No \<open>next\<close> is called.
\<close>

theorem readWigData_unknown_name_traverses:
  "refsByName emptyRefsView ''chr1'' = None \<and>
   map_option fetches (readWigData 1 Inr emptyRefsView ''chr1'' 0 1000) = Some [(48, 36)] \<and>
   map_option (\<lambda>t. filter (\<lambda>ev. \<not> terminal ev) (events t))
     (readWigData 1 Inr emptyRefsView ''chr1'' 0 1000) = Some []"
  using readWigData_emptyRefsView by (simp add: emptyRefsView_fields)

text \<open>
  C3. The claim: at most one terminal call, \<open>complete\<close> or \<open>error\<close>, is made on the
  observer of a query. On \<open>emptyRefsView\<close> the query for \<open>chr1\<close> calls
  \<open>observer.complete()\<close> twice: once for the unknown name, and once more at the end of
  \<open>readFeatures\<close>, which the traversal of the root node starts with no blocks.
\<close>

theorem readWigData_unknown_name_completes_twice:
  "map_option (\<lambda>t. filter terminal (events t)) (readWigData 1 Inr emptyRefsView ''chr1'' 0 1000)
     = Some [Complete, Complete]"
  using readWigData_emptyRefsView by simp

end
